theory Spec2Isabelle
  imports Complex_Main
begin

section \<open>InkTrust: a shallow embedding of the verification engine\<close>

text \<open>
  The development follows the JavaScript sources: the automation detector, the behavior
  analyzer, the fingerprint analyzer, the network analyzer, and the session routes of
  \<^verbatim>\<open>src/api/verify.js\<close> (init, event, verify, status, cleanup).

  Conventions of the embedding.
  \<^item> JavaScript numbers are reals. Wherever the source divides by a quantity that can be
    zero, the model writes out what IEEE arithmetic does there (a NaN compares false,
    an infinity compares as an infinity); rounding is not modelled.
  \<^item> A value that may be \<^verbatim>\<open>undefined\<close> or \<^verbatim>\<open>null\<close> is an \<open>option\<close>. Snapshot
    fields carry the types the bundled client collector sends (strings, numbers,
    booleans, a font array); the falsy values \<^verbatim>\<open>''\<close>, \<^verbatim>\<open>0\<close>, \<^verbatim>\<open>false\<close> are
    tested where the source tests truthiness.
  \<^item> Third-party libraries (user-agent parsers, PCA, geolocation, IP parsing, SHA-256) and
    the built-in \<^verbatim>\<open>JSON.stringify\<close> and \<^verbatim>\<open>Number\<close> are parameters, collected in the
    record \<open>externals\<close>.
  \<^item> A thrown \<^verbatim>\<open>TypeError\<close> is the value \<open>Inl TypeError\<close>.
  \<^item> The message literals of the source are Chinese; the model uses an ASCII rendering
    of each, one distinct string per source literal.
\<close>

subsection \<open>Strings\<close>

fun startsWith :: "string \<Rightarrow> string \<Rightarrow> bool" where
  "startsWith s [] = True"
| "startsWith [] (p # ps) = False"
| "startsWith (c # cs) (p # ps) = (c = p \<and> startsWith cs ps)"

text \<open>\<^verbatim>\<open>s.includes(sub)\<close>.\<close>

fun includesS :: "string \<Rightarrow> string \<Rightarrow> bool" where
  "includesS [] sub = (sub = [])"
| "includesS (c # cs) sub = (startsWith (c # cs) sub \<or> includesS cs sub)"

text \<open>ASCII lower-casing: a letter between \<open>A\<close> and \<open>Z\<close> gets bit 5 set.\<close>

definition toLowerChar :: "char \<Rightarrow> char" where
  "toLowerChar c =
     (if 65 \<le> (of_char c :: nat) \<and> (of_char c :: nat) \<le> 90
      then (case c of Char b0 b1 b2 b3 b4 b5 b6 b7 \<Rightarrow> Char b0 b1 b2 b3 b4 True b6 b7)
      else c)"

definition toLowerCase :: "string \<Rightarrow> string" where
  "toLowerCase s = map toLowerChar s"

text \<open>\<^verbatim>\<open>xs.join(sep)\<close>.\<close>

fun join :: "string \<Rightarrow> string list \<Rightarrow> string" where
  "join sep [] = []"
| "join sep [x] = x"
| "join sep (x # y # ys) = x @ sep @ join sep (y # ys)"

text \<open>\<^verbatim>\<open>s.split(c)\<close> for a one-character separator: never empty, \<open>[s]\<close> without a separator.\<close>

fun split :: "char \<Rightarrow> string \<Rightarrow> string list" where
  "split sep [] = [[]]"
| "split sep (c # cs) =
     (if c = sep then [] # split sep cs
      else (case split sep cs of [] \<Rightarrow> [[c]] | w # ws \<Rightarrow> (c # w) # ws))"

definition isSpace :: "char \<Rightarrow> bool" where
  "isSpace c = (c = CHR '' '' \<or> c = CHR 0x09 \<or> c = CHR 0x0A \<or> c = CHR 0x0D)"

definition trim :: "string \<Rightarrow> string" where
  "trim s = rev (dropWhile isSpace (rev (dropWhile isSpace s)))"

text \<open>Request headers: names in lower case, in arrival order; a lookup yields a string or
  \<^verbatim>\<open>undefined\<close>. \<open>truthy\<close> is JavaScript truthiness of such a lookup.\<close>

type_synonym headers = "(string \<times> string) list"

definition header :: "headers \<Rightarrow> string \<Rightarrow> string option" where
  "header hs k = map_of hs k"

definition truthy :: "string option \<Rightarrow> bool" where
  "truthy v = (case v of None \<Rightarrow> False | Some s \<Rightarrow> s \<noteq> [])"

subsection \<open>External libraries\<close>

text \<open>Bowser's parse result (\<open>browser\<close> and \<open>os\<close> are always objects; a name may be
  undefined) and device-detector's (\<open>client\<close> and \<open>os\<close> may be null).\<close>

record parsedUA =
  bowser_browser_name :: "string option"
  bowser_os_name :: "string option"

record deviceInfo =
  dd_client_name :: "string option"
  dd_os_name :: "string option"

text \<open>What the PCA library reports as \<open>explained[0]\<close>.\<close>

datatype pca_outcome = PcaThrows | PcaEmpty | PcaNaN | PcaRatio real

record geoData =
  country :: string

text \<open>A JSON value, as \<^verbatim>\<open>JSON.stringify\<close> receives it.\<close>

datatype json = JNull | JBool bool | JNum real | JStr string | JArr "json list"
  | JObj "(string \<times> json) list"

record parsedUserAgent =
  pua_browser :: bool      \<comment> \<open>UAParser's \<open>browser\<close> entry is truthy\<close>
  pua_os :: bool           \<comment> \<open>UAParser's \<open>os\<close> entry is truthy\<close>

record externals =
  bowser_parse :: "string \<Rightarrow> parsedUA option"       \<comment> \<open>None: the parser throws\<close>
  device_parse :: "string \<Rightarrow> deviceInfo option"     \<comment> \<open>None: the parser throws\<close>
  ua_parser :: "string option \<Rightarrow> parsedUserAgent"
  pca_explained :: "(real \<times> real) list \<Rightarrow> pca_outcome"
  geoip_lookup :: "string \<Rightarrow> geoData option"
  ipaddr_range :: "string \<Rightarrow> string option"         \<comment> \<open>None: \<^verbatim>\<open>ipaddr.parse\<close> throws\<close>
  ip_between :: "string \<Rightarrow> string \<Rightarrow> string \<Rightarrow> bool option"
     \<comment> \<open>same kind and start \<le> ip \<le> end; None when parsing or comparing throws\<close>
  sha256_hex :: "string \<Rightarrow> string"
  json_stringify :: "json \<Rightarrow> string"
  js_Number :: "string \<Rightarrow> real option"            \<comment> \<open>\<^verbatim>\<open>Number(s)\<close>; None: NaN\<close>

subsection \<open>Client information\<close>

record navigator =
  nav_webdriver :: bool                      \<comment> \<open>\<^verbatim>\<open>navigator.webdriver === true\<close>\<close>
  nav_props :: "string list"                 \<comment> \<open>property names, for \<^verbatim>\<open>prop in navigator\<close>\<close>
  nav_plugins :: "nat option"                \<comment> \<open>length of a truthy plugin list\<close>
  nav_languages :: "nat option"              \<comment> \<open>length of a truthy language list\<close>
  nav_permissions_query :: bool              \<comment> \<open>\<^verbatim>\<open>permissions.query\<close> is a function\<close>
  nav_platform :: "string option"
  nav_language :: "string option"
  nav_hardwareConcurrency :: "real option"   \<comment> \<open>None: undefined\<close>

record chrome =
  chrome_app :: bool
  chrome_runtime :: bool

record window =
  win_props :: "string list"                 \<comment> \<open>property names, for \<^verbatim>\<open>prop in window\<close>\<close>
  win_document_cdc :: bool                   \<comment> \<open>document has the ChromeDriver marker\<close>
  win_chrome :: "chrome option"
  win_WebGLRenderingContext :: bool

text \<open>A destructured field with default \<^verbatim>\<open>{}\<close>: absent, null, or an object.\<close>

datatype 'a field = Absent | Null | Obj 'a

definition emptyNavigator :: navigator where
  "emptyNavigator = \<lparr> nav_webdriver = False, nav_props = [], nav_plugins = None,
     nav_languages = None, nav_permissions_query = False, nav_platform = None,
     nav_language = None, nav_hardwareConcurrency = None \<rparr>"

definition emptyWindow :: window where
  "emptyWindow = \<lparr> win_props = [], win_document_cdc = False, win_chrome = None,
     win_WebGLRenderingContext = False \<rparr>"

definition orDefault :: "'a \<Rightarrow> 'a field \<Rightarrow> 'a option" where
  "orDefault d f = (case f of Absent \<Rightarrow> Some d | Null \<Rightarrow> None | Obj x \<Rightarrow> Some x)"

text \<open>The plugin list arrives as a comma-separated string or as an array.\<close>

datatype plugins = PluginString string | PluginArray "string list"

text \<open>\<open>clientInfo\<close>, as the init route builds it and the analyzers read it. A field is
  \<open>None\<close> when it is \<^verbatim>\<open>null\<close> or \<^verbatim>\<open>undefined\<close>. The route also stores
  \<open>cookiesEnabled\<close>, \<open>localStorage\<close>, \<open>sessionStorage\<close>, \<open>indexedDB\<close>, \<open>doNotTrack\<close>,
  \<open>adBlocker\<close>, \<open>automationFlags\<close>, \<open>connectionType\<close> and \<open>connectionSpeed\<close>; nothing
  reads them, and they are left out.\<close>

record clientInfo =
  ci_ip :: "string option"
  ci_userAgent :: "string option"
  ci_parsedUserAgent :: "parsedUserAgent option"
  ci_headers :: headers
  ci_navigator :: "navigator field"
  ci_window :: "window field"
  ci_fingerprint :: "string option"
  ci_canvasFingerprint :: "string option"
  ci_webglFingerprint :: "string option"
  ci_webglVendor :: "string option"
  ci_webglRenderer :: "string option"
  ci_audioFingerprint :: "string option"
  ci_screenResolution :: "string option"
  ci_colorDepth :: "real option"
  ci_pixelRatio :: "real option"
  ci_timezone :: "string option"
  ci_timezoneOffset :: "real option"
  ci_language :: "string option"
  ci_platform :: "string option"
  ci_hardwareConcurrency :: "real option"
  ci_deviceMemory :: "real option"
  ci_plugins :: "plugins option"
  ci_fonts :: "string list option"
  ci_touchSupport :: "bool option"
  ci_maxTouchPoints :: "real option"
  ci_webdriver :: "bool option"

text \<open>\<^verbatim>\<open>v || ''\<close> on a string-valued field.\<close>

definition orEmpty :: "string option \<Rightarrow> string" where
  "orEmpty v = (case v of None \<Rightarrow> [] | Some s \<Rightarrow> s)"

subsection \<open>Automation detector\<close>

record automationResult =
  isAutomated :: bool
  automationScore :: int
  detectedTools :: "string list"
  reasons :: "string list"

definition seleniumProps :: "string list" where
  "seleniumProps = [''__webdriver_evaluate'', ''__selenium_evaluate'',
     ''__webdriver_script_function'', ''__webdriver_script_func'', ''__webdriver_script_fn'',
     ''__fxdriver_evaluate'', ''__driver_unwrapped'', ''__webdriver_unwrapped'',
     ''__driver_evaluate'', ''__selenium_unwrapped'', ''__fxdriver_unwrapped'',
     ''_Selenium_IDE_Recorder'', ''_selenium'', ''calledSelenium'', ''_WEBDRIVER_ELEM_CACHE'']"

definition detectWebDriver :: "navigator option \<Rightarrow> bool" where
  "detectWebDriver nav =
     (case nav of None \<Rightarrow> False
      | Some n \<Rightarrow> nav_webdriver n \<or> list_ex (\<lambda>p. p \<in> set (nav_props n)) seleniumProps)"

record toolResult =
  detected :: bool
  score :: int
  tr_reasons :: "string list"

definition noTool :: toolResult where
  "noTool = \<lparr> detected = False, score = 0, tr_reasons = [] \<rparr>"

text \<open>One check of a tool detector: add to the score, push a reason, and (for a
  definitive marker) set \<open>detected\<close>.\<close>

definition mark :: "bool \<Rightarrow> int \<Rightarrow> string list \<Rightarrow> toolResult \<Rightarrow> toolResult" where
  "mark d n rs r = \<lparr> detected = (detected r \<or> d), score = score r + n,
     tr_reasons = tr_reasons r @ rs \<rparr>"

definition seleniumWindowProps :: "string list" where
  "seleniumWindowProps = [''SeleniumWebDriverRequest'', ''_selenium'', ''selenium'',
     ''Selenium'', ''_Selenium_IDE_Recorder'', ''callSelenium'']"

definition detectSelenium :: "string \<Rightarrow> navigator option \<Rightarrow> window option \<Rightarrow> toolResult" where
  "detectSelenium ua nav win =
     (case (nav, win) of
        (Some n, Some w) \<Rightarrow>
          if ua = [] then noTool
          else
            let r1 = (if includesS ua ''Selenium'' \<or> includesS ua ''selenium''
                      then mark True 25 [''user agent contains Selenium keyword''] noTool
                      else noTool);
                r2 = (case find (\<lambda>p. p \<in> set (win_props w)) seleniumWindowProps of
                        Some p \<Rightarrow> mark True 20 [''Selenium window property: '' @ p] r1
                      | None \<Rightarrow> r1)
            in (if win_document_cdc w
                then mark True 25 [''Chrome WebDriver marker detected''] r2 else r2)
      | _ \<Rightarrow> noTool)"

text \<open>The two detectors below end with \<^verbatim>\<open>if (result.score >= 30) result.detected = true\<close>.\<close>

definition atLeast30 :: "toolResult \<Rightarrow> toolResult" where
  "atLeast30 r = (if score r \<ge> 30 then r\<lparr> detected := True \<rparr> else r)"

definition detectPuppeteer :: "string \<Rightarrow> navigator option \<Rightarrow> window option \<Rightarrow> toolResult" where
  "detectPuppeteer ua nav win =
     (case (nav, win) of
        (Some n, Some w) \<Rightarrow>
          if ua = [] then noTool
          else
            let r1 = (if includesS ua ''HeadlessChrome''
                      then mark True 30 [''user agent contains HeadlessChrome''] noTool
                      else noTool);
                r2 = (if nav_plugins n = Some 0
                      then mark False 10 [''browser plugin count is 0''] r1 else r1);
                r3 = (case win_chrome w of
                        Some c \<Rightarrow> if chrome_app c \<and> chrome_runtime c then r2
                                  else mark False 15 [''Chrome object incomplete''] r2
                      | None \<Rightarrow> r2);
                r4 = (if nav_languages n = Some 0
                      then mark False 10 [''language list is empty''] r3 else r3)
            in atLeast30 r4
      | _ \<Rightarrow> noTool)"

definition detectPlaywright :: "string \<Rightarrow> navigator option \<Rightarrow> window option \<Rightarrow> toolResult" where
  "detectPlaywright ua nav win =
     (case (nav, win) of
        (Some n, Some w) \<Rightarrow>
          if ua = [] then noTool
          else
            let r1 = (if nav_permissions_query n then mark False 10 [] noTool else noTool);
                r2 = (if includesS ua ''Playwright''
                      then mark True 30 [''user agent contains Playwright''] r1 else r1);
                r3 = (if win_WebGLRenderingContext w then mark False 5 [] r2 else r2)
            in atLeast30 r3
      | _ \<Rightarrow> noTool)"

definition getPlatformOS :: "string \<Rightarrow> string option" where
  "getPlatformOS platform =
     (let p = toLowerCase platform in
      if includesS p ''win'' then Some ''Windows''
      else if includesS p ''mac'' then Some ''macOS''
      else if includesS p ''linux'' \<or> includesS p ''x11'' then Some ''Linux''
      else if includesS p ''android'' then Some ''Android''
      else if includesS p ''iphone'' \<or> includesS p ''ipad'' then Some ''iOS''
      else None)"

text \<open>First element of a split; \<open>split\<close> never returns the empty list.\<close>

definition firstPart :: "char \<Rightarrow> string \<Rightarrow> string" where
  "firstPart sep s = (case split sep s of [] \<Rightarrow> [] | w # ws \<Rightarrow> w)"

text \<open>The \<^verbatim>\<open>catch\<close> block of \<open>detectBrowserInconsistency\<close>: what was accumulated stays.\<close>

definition caught :: "toolResult \<Rightarrow> toolResult" where
  "caught r = mark False 5 [''user agent parse error''] r"

definition languageCheck :: "headers \<Rightarrow> navigator \<Rightarrow> toolResult \<Rightarrow> toolResult" where
  "languageCheck hs n r =
     (case (header hs ''accept-language'', nav_language n) of
        (Some h, Some l) \<Rightarrow>
          if h \<noteq> [] \<and> l \<noteq> [] \<and>
             firstPart CHR ''-'' (trim (firstPart CHR '','' h)) \<noteq> firstPart CHR ''-'' l
          then mark True 10 [''Accept-Language differs from navigator.language''] r
          else r
      | _ \<Rightarrow> r)"

definition detectBrowserInconsistency ::
    "externals \<Rightarrow> string \<Rightarrow> headers \<Rightarrow> navigator option \<Rightarrow> toolResult" where
  "detectBrowserInconsistency X ua hs nav =
     (case nav of
        None \<Rightarrow> noTool
      | Some n \<Rightarrow>
          if ua = [] then noTool
          else (case bowser_parse X ua of
            None \<Rightarrow> caught noTool
          | Some p \<Rightarrow> (case device_parse X ua of
              None \<Rightarrow> caught noTool
            | Some d \<Rightarrow>
                let r1 = (if dd_client_name d \<noteq> None \<and> bowser_browser_name p \<noteq> dd_client_name d
                          then mark True 15 [''browser name inconsistent''] noTool else noTool);
                    r2 = (if dd_os_name d \<noteq> None \<and> bowser_os_name p \<noteq> dd_os_name d
                          then mark True 15 [''operating system inconsistent''] r1 else r1)
                in (case (if truthy (nav_platform n)
                          then getPlatformOS (orEmpty (nav_platform n)) else None) of
                      None \<Rightarrow> languageCheck hs n r2
                    | Some platformOS \<Rightarrow>
                        (case bowser_os_name p of
                           None \<Rightarrow> caught r2
                         | Some osName \<Rightarrow>
                             languageCheck hs n
                               (if toLowerCase osName \<noteq> toLowerCase platformOS
                                then mark True 20 [''platform differs from user agent OS''] r2
                                else r2))))))"

definition commonAutomatedSizes :: "string list" where
  "commonAutomatedSizes = [''800x600'', ''1024x768'', ''1280x800'', ''1366x768'', ''1920x1080'']"

text \<open>\<^verbatim>\<open>a < b\<close> on numbers that may be NaN or undefined: false then.\<close>

definition ltN :: "real option \<Rightarrow> real \<Rightarrow> bool" where
  "ltN a b = (case a of None \<Rightarrow> False | Some x \<Rightarrow> x < b)"

text \<open>\<^verbatim>\<open>ratio < 1 || ratio > 3\<close> for \<^verbatim>\<open>ratio = width / height\<close>: a zero height gives an
  infinity (abnormal) unless the width is zero too (NaN).\<close>

definition ratioAbnormal :: "real option \<Rightarrow> real option \<Rightarrow> bool" where
  "ratioAbnormal w h =
     (case (w, h) of
        (Some a, Some b) \<Rightarrow> if b = 0 then a \<noteq> 0 else a / b < 1 \<or> a / b > 3
      | _ \<Rightarrow> False)"

definition detectAbnormalScreenSize :: "externals \<Rightarrow> clientInfo \<Rightarrow> bool" where
  "detectAbnormalScreenSize X ci =
     (if \<not> truthy (ci_screenResolution ci) then False
      else
        let sr = orEmpty (ci_screenResolution ci);
            parts = map (js_Number X) (split CHR ''x'' sr);
            width = (case parts of [] \<Rightarrow> None | a # _ \<Rightarrow> a);
            height = (case parts of a # b # _ \<Rightarrow> b | _ \<Rightarrow> None)
        in if sr \<in> set commonAutomatedSizes then True
           else if ratioAbnormal width height then True
           else if ltN width 500 \<or> ltN height 500 then True
           else False)"

definition commonAutomatedTimezones :: "string list" where
  "commonAutomatedTimezones = [''UTC'', ''GMT'', ''Etc/GMT'', ''Etc/UTC'']"

definition detectAbnormalTimezone :: "clientInfo \<Rightarrow> bool" where
  "detectAbnormalTimezone ci =
     (if \<not> truthy (ci_timezone ci) then False
      else orEmpty (ci_timezone ci) \<in> set commonAutomatedTimezones)"

definition detectAbnormalPluginCount :: "navigator option \<Rightarrow> bool" where
  "detectAbnormalPluginCount nav =
     (case nav of None \<Rightarrow> False
      | Some n \<Rightarrow> (case nav_plugins n of None \<Rightarrow> False | Some k \<Rightarrow> k = 0 \<or> k < 2))"

definition detectAbnormalHardwareConcurrency :: "navigator option \<Rightarrow> bool" where
  "detectAbnormalHardwareConcurrency nav =
     (case nav of None \<Rightarrow> False
      | Some n \<Rightarrow> (case nav_hardwareConcurrency n of None \<Rightarrow> False | Some k \<Rightarrow> k \<le> 2))"

definition detectAbnormalLanguage :: "navigator option \<Rightarrow> headers \<Rightarrow> bool" where
  "detectAbnormalLanguage nav hs =
     (case nav of None \<Rightarrow> False
      | Some n \<Rightarrow>
          if nav_languages n = Some 0 then True
          else if \<not> truthy (header hs ''accept-language'') then True
          else False)"

text \<open>\<open>checkUserAgentConsistency\<close>, reduced to its \<open>consistent\<close> flag (the list of
  inconsistencies is not read).\<close>

definition checkUserAgentConsistency :: "string \<Rightarrow> headers \<Rightarrow> bool" where
  "checkUserAgentConsistency ua hs =
     (if ua = [] then True
      else if truthy (header hs ''user-agent'') \<and> header hs ''user-agent'' \<noteq> Some ua then False
      else True)"

text \<open>The steps of \<open>detectAutomation\<close>, in source order.\<close>

definition flagTool :: "string \<Rightarrow> int \<Rightarrow> string list \<Rightarrow> automationResult \<Rightarrow> automationResult" where
  "flagTool tool n rs r = r\<lparr> isAutomated := True, automationScore := automationScore r + n,
     detectedTools := detectedTools r @ [tool], reasons := reasons r @ rs \<rparr>"

definition addScore :: "int \<Rightarrow> string list \<Rightarrow> automationResult \<Rightarrow> automationResult" where
  "addScore n rs r = r\<lparr> automationScore := automationScore r + n, reasons := reasons r @ rs \<rparr>"

definition stepTool :: "string \<Rightarrow> toolResult \<Rightarrow> automationResult \<Rightarrow> automationResult" where
  "stepTool tool t r = (if detected t then flagTool tool (score t) (tr_reasons t) r else r)"

definition stepInconsistency :: "toolResult \<Rightarrow> automationResult \<Rightarrow> automationResult" where
  "stepInconsistency t r = (if detected t then addScore (score t) (tr_reasons t) r else r)"

definition stepFlag :: "bool \<Rightarrow> int \<Rightarrow> string \<Rightarrow> automationResult \<Rightarrow> automationResult" where
  "stepFlag c n reason r = (if c then addScore n [reason] r else r)"

definition stepThreshold :: "automationResult \<Rightarrow> automationResult" where
  "stepThreshold r =
     (if automationScore r \<ge> 50 \<and> \<not> isAutomated r
      then r\<lparr> isAutomated := True, detectedTools := detectedTools r @ [''Unknown Automation''] \<rparr>
      else r)"

definition capScore :: "automationResult \<Rightarrow> automationResult" where
  "capScore r = r\<lparr> automationScore := min (automationScore r) 100 \<rparr>"

definition initialResult :: automationResult where
  "initialResult = \<lparr> isAutomated = False, automationScore = 0, detectedTools = [], reasons = [] \<rparr>"

text \<open>The body of \<open>detectAutomation\<close>, after the destructuring of \<open>clientInfo\<close>.\<close>

definition runDetectors ::
    "externals \<Rightarrow> clientInfo \<Rightarrow> string \<Rightarrow> headers \<Rightarrow> navigator option \<Rightarrow> window option
       \<Rightarrow> automationResult" where
  "runDetectors X ci ua hs nav win =
     capScore (stepThreshold
       (stepFlag (\<not> checkUserAgentConsistency ua hs) 20 ''user agent inconsistent''
       (stepFlag (detectAbnormalLanguage nav hs) 5 ''abnormal language settings''
       (stepFlag (detectAbnormalHardwareConcurrency nav) 10 ''abnormal hardware concurrency''
       (stepFlag (detectAbnormalPluginCount nav) 15 ''abnormal browser plugin count''
       (stepFlag (detectAbnormalTimezone ci) 10 ''abnormal timezone''
       (stepFlag (detectAbnormalScreenSize X ci) 10 ''abnormal screen size''
       (stepInconsistency (detectBrowserInconsistency X ua hs nav)
       (stepTool ''Playwright'' (detectPlaywright ua nav win)
       (stepTool ''Puppeteer'' (detectPuppeteer ua nav win)
       (stepTool ''Selenium'' (detectSelenium ua nav win)
       (if detectWebDriver nav
        then flagTool ''WebDriver'' 30 [''WebDriver API detected''] initialResult
        else initialResult))))))))))))"

definition detectAutomation :: "externals \<Rightarrow> clientInfo \<Rightarrow> automationResult" where
  "detectAutomation X ci =
     runDetectors X ci (orEmpty (ci_userAgent ci)) (ci_headers ci)
       (orDefault emptyNavigator (ci_navigator ci)) (orDefault emptyWindow (ci_window ci))"

text \<open>Whenever the result is flagged as automated, a tool has been named.\<close>

definition toolsNamed :: "automationResult \<Rightarrow> bool" where
  "toolsNamed r = (if isAutomated r then detectedTools r \<noteq> [] else True)"

text \<open>A tool that has been named stays named, with at least the score it came with.\<close>

definition keeps :: "string \<Rightarrow> int \<Rightarrow> automationResult \<Rightarrow> bool" where
  "keeps tool n r = (tool \<in> set (detectedTools r) \<and> n \<le> automationScore r \<and> isAutomated r)"

subsection \<open>Behavior analyzer\<close>

text \<open>An event as the event route stores it: the type tag, the payload (\<open>None\<close> when the
  request carried none) and the server's timestamp. Of the payload the analyzers read the
  numbers \<open>x\<close>, \<open>y\<close> and \<open>timestamp\<close>. The numeric metrics the analyzers report next to
  their verdicts are not modelled.\<close>

record evdata =
  d_x :: "real option"
  d_y :: "real option"
  d_timestamp :: "real option"

record event =
  ev_type :: string
  ev_data :: "evdata option"
  ev_timestamp :: real

datatype error = TypeError

text \<open>\<^verbatim>\<open>a || b\<close> on numbers: zero is falsy.\<close>

definition orNum :: "real option \<Rightarrow> real \<Rightarrow> real" where
  "orNum a b = (case a of None \<Rightarrow> b | Some x \<Rightarrow> if x = 0 then b else x)"

text \<open>\<^verbatim>\<open>event.data?.timestamp || event.timestamp || Date.now()\<close>.\<close>

definition eventTime :: "real \<Rightarrow> event \<Rightarrow> real" where
  "eventTime now e =
     orNum (case ev_data e of None \<Rightarrow> None | Some d \<Rightarrow> d_timestamp d)
           (orNum (Some (ev_timestamp e)) now)"

text \<open>\<^verbatim>\<open>event.data.timestamp || event.timestamp || Date.now()\<close>: reading a property of a
  missing payload throws.\<close>

definition eventTimeStrict :: "real \<Rightarrow> event \<Rightarrow> error + real" where
  "eventTimeStrict now e =
     (case ev_data e of None \<Rightarrow> Inl TypeError | Some d \<Rightarrow> Inr (eventTime now e))"

definition mean :: "real list \<Rightarrow> real" where
  "mean xs = sum_list xs / real (length xs)"

text \<open>The population standard deviation the analyzers compute inline.\<close>

definition stdDev :: "real list \<Rightarrow> real" where
  "stdDev xs = sqrt (sum_list (map (\<lambda>x. (x - mean xs)\<^sup>2) xs) / real (length xs))"

fun diffs :: "real list \<Rightarrow> real list" where
  "diffs (a # b # xs) = (b - a) # diffs (b # xs)"
| "diffs xs = []"

definition isMouseMove :: "event \<Rightarrow> bool" where
  "isMouseMove e = (ev_type e = ''mousemove'')"

text \<open>The coordinate and timestamp arrays of \<open>analyzeMouseTrajectory\<close>, as one list:
  an event contributes when its payload has numeric \<open>x\<close> and \<open>y\<close>.\<close>

definition coordOf :: "event \<Rightarrow> (real \<times> real) option" where
  "coordOf e =
     (case ev_data e of None \<Rightarrow> None
      | Some d \<Rightarrow> (case (d_x d, d_y d) of (Some x, Some y) \<Rightarrow> Some (x, y) | _ \<Rightarrow> None))"

fun points :: "real \<Rightarrow> event list \<Rightarrow> ((real \<times> real) \<times> real) list" where
  "points now [] = []"
| "points now (e # es) =
     (case coordOf e of None \<Rightarrow> points now es
      | Some c \<Rightarrow> (c, eventTime now e) # points now es)"

fun speedsOf :: "((real \<times> real) \<times> real) list \<Rightarrow> real list" where
  "speedsOf (((x0, y0), t0) # ((x1, y1), t1) # ps) =
     (let dx = x1 - x0; dy = y1 - y0; dt = (t1 - t0) / 1000
      in (if dt > 0 then [sqrt (dx * dx + dy * dy) / dt] else [])
         @ speedsOf (((x1, y1), t1) # ps))"
| "speedsOf ps = []"

fun signFlips :: "real list \<Rightarrow> nat" where
  "signFlips (a # b # xs) =
     (if (b > 0 \<and> a < 0) \<or> (b < 0 \<and> a > 0) then 1 else 0) + signFlips (b # xs)"
| "signFlips xs = 0"

fun directionChangesOf :: "(real \<times> real) list \<Rightarrow> nat" where
  "directionChangesOf ((x0, y0) # (x1, y1) # (x2, y2) # cs) =
     (let v1 = (x1 - x0, y1 - y0); v2 = (x2 - x1, y2 - y1);
          dotProduct = fst v1 * fst v2 + snd v1 * snd v2;
          magnitude1 = sqrt (fst v1 * fst v1 + snd v1 * snd v1);
          magnitude2 = sqrt (fst v2 * fst v2 + snd v2 * snd v2)
      in (if magnitude1 > 0 \<and> magnitude2 > 0 \<and> dotProduct / (magnitude1 * magnitude2) < 0.9
          then 1 else 0)
         + directionChangesOf ((x1, y1) # (x2, y2) # cs))"
| "directionChangesOf cs = 0"

text \<open>\<^verbatim>\<open>straightLineRatio < 0.98\<close>: the ratio is 0.5 when the PCA throws, stays 0 when it
  explains nothing, and a NaN compares false.\<close>

definition notTooStraight :: "pca_outcome \<Rightarrow> bool" where
  "notTooStraight p =
     (case p of PcaThrows \<Rightarrow> True | PcaEmpty \<Rightarrow> True | PcaNaN \<Rightarrow> False
      | PcaRatio r \<Rightarrow> r < 0.98)"

record trajectoryResult =
  tj_isNatural :: bool
  tj_accelerationChanges :: nat
  tj_directionChanges :: nat

definition unnaturalTrajectory :: trajectoryResult where
  "unnaturalTrajectory =
     \<lparr> tj_isNatural = False, tj_accelerationChanges = 0, tj_directionChanges = 0 \<rparr>"

text \<open>With no positive time step the speed list is empty, its average and deviation are
  NaN, and \<^verbatim>\<open>speedVariation > 50\<close> is false.\<close>

definition analyzeMouseTrajectory :: "externals \<Rightarrow> real \<Rightarrow> event list \<Rightarrow> trajectoryResult" where
  "analyzeMouseTrajectory X now mouseEvents =
     (if length mouseEvents < 5 then unnaturalTrajectory
      else
        let ps = points now mouseEvents; coordinates = map fst ps
        in if length coordinates < 5 then unnaturalTrajectory
           else
             let speeds = speedsOf ps;
                 accelerationChanges = signFlips (diffs speeds);
                 directionChanges = directionChangesOf coordinates
             in \<lparr> tj_isNatural =
                    (speeds \<noteq> [] \<and> stdDev speeds > 50 \<and> accelerationChanges \<ge> 2
                     \<and> directionChanges \<ge> 3 \<and> notTooStraight (pca_explained X coordinates)),
                  tj_accelerationChanges = accelerationChanges,
                  tj_directionChanges = directionChanges \<rparr>)"

text \<open>The inner loop of \<open>analyzeClickPattern\<close>: walk the events from the last one back,
  looking for a pointer move less than a second before the click.\<close>

fun foundMovement :: "real \<Rightarrow> real \<Rightarrow> event list \<Rightarrow> error + bool" where
  "foundMovement now clickTime [] = Inr False"
| "foundMovement now clickTime (e # es) =
     (if isMouseMove e
      then (case eventTimeStrict now e of
              Inl err \<Rightarrow> Inl err
            | Inr eventTime' \<Rightarrow>
                if eventTime' < clickTime \<and> clickTime - eventTime' < 1000 then Inr True
                else foundMovement now clickTime es)
      else foundMovement now clickTime es)"

text \<open>Sequencing of computations that may throw.\<close>

fun mapE :: "('a \<Rightarrow> error + 'b) \<Rightarrow> 'a list \<Rightarrow> error + 'b list" where
  "mapE f [] = Inr []"
| "mapE f (x # xs) =
     (case f x of Inl err \<Rightarrow> Inl err
      | Inr y \<Rightarrow> (case mapE f xs of Inl err \<Rightarrow> Inl err | Inr ys \<Rightarrow> Inr (y # ys)))"

record clickResult =
  ck_isNatural :: bool
  ck_clicksWithoutMovement :: nat

definition analyzeClickPattern :: "real \<Rightarrow> event list \<Rightarrow> event list \<Rightarrow> error + clickResult" where
  "analyzeClickPattern now clickEvents allEvents =
     (if length clickEvents < 2
      then Inr \<lparr> ck_isNatural = False, ck_clicksWithoutMovement = 0 \<rparr>
      else (case mapE (eventTimeStrict now) clickEvents of
        Inl err \<Rightarrow> Inl err
      | Inr clickTimes \<Rightarrow>
          let avgTimeBetweenClicks = sum_list (diffs clickTimes) / real (length clickTimes - 1)
          in (case mapE (\<lambda>t. foundMovement now t (rev allEvents)) clickTimes of
                Inl err \<Rightarrow> Inl err
              | Inr found \<Rightarrow>
                  let clicksWithoutMovement = length (filter (\<lambda>b. \<not> b) found);
                      clickPrecision =
                        1 - real clicksWithoutMovement / real (length clickEvents)
                  in Inr \<lparr> ck_isNatural = (avgTimeBetweenClicks > 500 \<and> clickPrecision > 0.7),
                           ck_clicksWithoutMovement = clicksWithoutMovement \<rparr>)))"

text \<open>The coefficient of variation \<^verbatim>\<open>stdDev / avg\<close> and its two tests. With a zero
  average the quotient is NaN (zero deviation: both tests false) or \<open>+\<infinity>\<close> (not below
  0.1, above 0.2).\<close>

definition cvBelow :: "real list \<Rightarrow> real \<Rightarrow> bool" where
  "cvBelow intervals c =
     (if mean intervals = 0 then False else stdDev intervals / mean intervals < c)"

definition cvAbove :: "real list \<Rightarrow> real \<Rightarrow> bool" where
  "cvAbove intervals c =
     (if mean intervals = 0 then stdDev intervals > 0
      else stdDev intervals / mean intervals > c)"

record intervalResult =
  ti_isNatural :: bool
  ti_suspiciouslyRegularIntervals :: bool

definition analyzeEventTimeIntervals :: "real \<Rightarrow> event list \<Rightarrow> intervalResult" where
  "analyzeEventTimeIntervals now events =
     (if length events < 5
      then \<lparr> ti_isNatural = False, ti_suspiciouslyRegularIntervals = False \<rparr>
      else
        let intervals = diffs (map (eventTime now) events);
            suspiciouslyRegular = cvBelow intervals 0.1
        in \<lparr> ti_isNatural = (\<not> suspiciouslyRegular \<and> cvAbove intervals 0.2),
             ti_suspiciouslyRegularIntervals = suspiciouslyRegular \<rparr>)"

record keyPressResult =
  kp_isNatural :: bool
  kp_suspiciouslyFastTyping :: bool

definition analyzeKeyPressPattern :: "real \<Rightarrow> event list \<Rightarrow> keyPressResult" where
  "analyzeKeyPressPattern now keypressEvents =
     (if length keypressEvents < 5
      then \<lparr> kp_isNatural = False, kp_suspiciouslyFastTyping = False \<rparr>
      else
        let intervals = diffs (map (eventTime now) keypressEvents)
        in \<lparr> kp_isNatural = (mean intervals > 100 \<and> stdDev intervals > 50),
             kp_suspiciouslyFastTyping = (mean intervals < 50) \<rparr>)"

record behaviorResult =
  bh_isHuman :: bool
  bh_score :: int
  bh_reasons :: "string list"

text \<open>One sub-analysis of \<open>analyzeBehavior\<close>: a reason when it is not natural, its points
  when it is.\<close>

definition credit :: "bool \<Rightarrow> int \<Rightarrow> string \<Rightarrow> behaviorResult \<Rightarrow> behaviorResult" where
  "credit natural n reason r =
     (if natural then r\<lparr> bh_score := bh_score r + n \<rparr>
      else r\<lparr> bh_reasons := bh_reasons r @ [reason] \<rparr>)"

definition analyzeBehavior :: "externals \<Rightarrow> real \<Rightarrow> event list \<Rightarrow> error + behaviorResult" where
  "analyzeBehavior X now events =
     (if events = []
      then Inr \<lparr> bh_isHuman = False, bh_score = 0,
                 bh_reasons = [''not enough behavior data to analyze''] \<rparr>
      else
        let mouseEvents = filter isMouseMove events
        in if length mouseEvents < 5
           then Inr \<lparr> bh_isHuman = False, bh_score = 0,
                      bh_reasons = [''too few mouse move events''] \<rparr>
           else
             let r1 = credit (tj_isNatural (analyzeMouseTrajectory X now mouseEvents)) 30
                        ''mouse trajectory is not natural''
                        \<lparr> bh_isHuman = False, bh_score = 0, bh_reasons = [] \<rparr>
             in (case analyzeClickPattern now (filter (\<lambda>e. ev_type e = ''click'') events) events of
                   Inl err \<Rightarrow> Inl err
                 | Inr clickPatternResult \<Rightarrow>
                     let r2 = credit (ck_isNatural clickPatternResult) 25
                                ''click pattern is not natural'' r1;
                         r3 = credit (ti_isNatural (analyzeEventTimeIntervals now events)) 25
                                ''event time intervals are not natural'' r2;
                         keypressEvents = filter (\<lambda>e. ev_type e = ''keypress'') events;
                         r4 = (if length keypressEvents > 0
                               then credit (kp_isNatural (analyzeKeyPressPattern now keypressEvents))
                                      20 ''keyboard input pattern is not natural'' r3
                               else r3)
                     in Inr (r4\<lparr> bh_isHuman := (bh_score r4 \<ge> 50) \<rparr>)))"

subsection \<open>Fingerprint analyzer\<close>

text \<open>\<^verbatim>\<open>v || null\<close> on a string and on a number: the empty string and zero are falsy.\<close>

definition orNullS :: "string option \<Rightarrow> string option" where
  "orNullS v = (case v of None \<Rightarrow> None | Some s \<Rightarrow> if s = [] then None else Some s)"

definition orNullN :: "real option \<Rightarrow> real option" where
  "orNullN v = (case v of None \<Rightarrow> None | Some x \<Rightarrow> if x = 0 then None else Some x)"

definition orFalse :: "bool option \<Rightarrow> bool" where
  "orFalse v = (case v of None \<Rightarrow> False | Some b \<Rightarrow> b)"

text \<open>\<^verbatim>\<open>plugins || null\<close>: an empty string is falsy, an array (even empty) is truthy.\<close>

definition orNullP :: "plugins option \<Rightarrow> plugins option" where
  "orNullP v = (case v of Some (PluginString []) \<Rightarrow> None | _ \<Rightarrow> v)"

text \<open>The component record of \<open>extractFingerprintComponents\<close>. \<open>fc_colorDepth = None\<close>
  stands for the default \<^verbatim>\<open>''\<close>, \<open>fc_plugins = None\<close> for the default \<^verbatim>\<open>''\<close>; in the
  other optional fields \<open>None\<close> is \<^verbatim>\<open>null\<close>.\<close>

record components =
  fc_userAgent :: string
  fc_language :: string
  fc_colorDepth :: "real option"
  fc_screenResolution :: string
  fc_timezone :: string
  fc_timezoneOffset :: "real option"
  fc_platform :: string
  fc_plugins :: "plugins option"
  fc_canvasFingerprint :: "string option"
  fc_webglFingerprint :: "string option"
  fc_webglVendor :: string
  fc_webglRenderer :: string
  fc_audioFingerprint :: "string option"
  fc_fonts :: "string list"
  fc_touchSupport :: bool
  fc_maxTouchPoints :: real
  fc_hardwareConcurrency :: "real option"
  fc_deviceMemory :: "real option"
  fc_pixelRatio :: "real option"

definition extractFingerprintComponents :: "clientInfo \<Rightarrow> components" where
  "extractFingerprintComponents ci =
     \<lparr> fc_userAgent = orEmpty (ci_userAgent ci),
       fc_language = orEmpty (ci_language ci),
       fc_colorDepth = orNullN (ci_colorDepth ci),
       fc_screenResolution = orEmpty (ci_screenResolution ci),
       fc_timezone = orEmpty (ci_timezone ci),
       fc_timezoneOffset = orNullN (ci_timezoneOffset ci),
       fc_platform = orEmpty (ci_platform ci),
       fc_plugins = orNullP (ci_plugins ci),
       fc_canvasFingerprint = orNullS (ci_canvasFingerprint ci),
       fc_webglFingerprint = orNullS (ci_webglFingerprint ci),
       fc_webglVendor = orEmpty (ci_webglVendor ci),
       fc_webglRenderer = orEmpty (ci_webglRenderer ci),
       fc_audioFingerprint = orNullS (ci_audioFingerprint ci),
       fc_fonts = (case ci_fonts ci of None \<Rightarrow> [] | Some fs \<Rightarrow> fs),
       fc_touchSupport = orFalse (ci_touchSupport ci),
       fc_maxTouchPoints = orNum (ci_maxTouchPoints ci) 0,
       fc_hardwareConcurrency = orNullN (ci_hardwareConcurrency ci),
       fc_deviceMemory = orNullN (ci_deviceMemory ci),
       fc_pixelRatio = orNullN (ci_pixelRatio ci) \<rparr>"

text \<open>The component object handed to \<^verbatim>\<open>JSON.stringify\<close>, keys in declaration order.\<close>

definition jsonS :: "string option \<Rightarrow> json" where
  "jsonS v = (case v of None \<Rightarrow> JNull | Some s \<Rightarrow> JStr s)"

definition jsonN :: "real option \<Rightarrow> json" where
  "jsonN v = (case v of None \<Rightarrow> JNull | Some x \<Rightarrow> JNum x)"

definition componentsJson :: "components \<Rightarrow> json" where
  "componentsJson c = JObj
     [(''userAgent'', JStr (fc_userAgent c)),
      (''language'', JStr (fc_language c)),
      (''colorDepth'', (case fc_colorDepth c of None \<Rightarrow> JStr [] | Some x \<Rightarrow> JNum x)),
      (''screenResolution'', JStr (fc_screenResolution c)),
      (''timezone'', JStr (fc_timezone c)),
      (''timezoneOffset'', jsonN (fc_timezoneOffset c)),
      (''platform'', JStr (fc_platform c)),
      (''plugins'', (case fc_plugins c of None \<Rightarrow> JStr [] | Some (PluginString s) \<Rightarrow> JStr s
                      | Some (PluginArray ps) \<Rightarrow> JArr (map JStr ps))),
      (''canvasFingerprint'', jsonS (fc_canvasFingerprint c)),
      (''webglFingerprint'', jsonS (fc_webglFingerprint c)),
      (''webglVendor'', JStr (fc_webglVendor c)),
      (''webglRenderer'', JStr (fc_webglRenderer c)),
      (''audioFingerprint'', jsonS (fc_audioFingerprint c)),
      (''fonts'', JArr (map JStr (fc_fonts c))),
      (''touchSupport'', JBool (fc_touchSupport c)),
      (''maxTouchPoints'', JNum (fc_maxTouchPoints c)),
      (''hardwareConcurrency'', jsonN (fc_hardwareConcurrency c)),
      (''deviceMemory'', jsonN (fc_deviceMemory c)),
      (''pixelRatio'', jsonN (fc_pixelRatio c))]"

definition generateFingerprintHash :: "externals \<Rightarrow> components \<Rightarrow> string" where
  "generateFingerprintHash X c = sha256_hex X (json_stringify X (componentsJson c))"

record partResult =
  pr_score :: int
  pr_anomalies :: "string list"

definition noPart :: partResult where
  "noPart = \<lparr> pr_score = 0, pr_anomalies = [] \<rparr>"

definition award :: "int \<Rightarrow> partResult \<Rightarrow> partResult" where
  "award n r = r\<lparr> pr_score := pr_score r + n \<rparr>"

definition anomaly :: "string \<Rightarrow> int \<Rightarrow> partResult \<Rightarrow> partResult" where
  "anomaly a n r = \<lparr> pr_score = pr_score r + n, pr_anomalies = pr_anomalies r @ [a] \<rparr>"

definition knownAutomatedCanvasFingerprints :: "string list" where
  "knownAutomatedCanvasFingerprints =
     [''0000000000000000000000000000000000000000'', ''f995d7d9444e4ee6a1f4063baae68d9d1a12b5f0'']"

definition analyzeCanvasFingerprint :: "string \<Rightarrow> partResult" where
  "analyzeCanvasFingerprint canvasFingerprint =
     (if canvasFingerprint = [] then anomaly ''missing Canvas fingerprint'' 0 noPart
      else
        let r1 = (if length canvasFingerprint < 50
                  then anomaly ''Canvas fingerprint length abnormal'' (- 10) noPart
                  else award 10 noPart)
        in if canvasFingerprint \<in> set knownAutomatedCanvasFingerprints
           then anomaly ''known automation Canvas fingerprint'' (- 20) r1 else r1)"

definition automatedWebGLVendors :: "string list" where
  "automatedWebGLVendors = [''Brian Paul'', ''Mesa'', ''Google Inc.'', ''Google SwiftShader'']"

definition automatedWebGLRenderers :: "string list" where
  "automatedWebGLRenderers =
     [''Mesa OffScreen'', ''Google SwiftShader'', ''llvmpipe'', ''Software Rasterizer'', ''ANGLE'']"

definition analyzeWebGLFingerprint :: "string \<Rightarrow> string \<Rightarrow> string \<Rightarrow> partResult" where
  "analyzeWebGLFingerprint webglFingerprint webglVendor webglRenderer =
     (if webglFingerprint = [] then anomaly ''missing WebGL fingerprint'' 0 noPart
      else
        let r1 = (if length webglFingerprint < 50
                  then anomaly ''WebGL fingerprint length abnormal'' (- 10) noPart
                  else award 10 noPart)
        in if webglVendor \<noteq> [] \<and> webglRenderer \<noteq> []
           then
             let r2 = (if list_ex (\<lambda>v. includesS webglVendor v) automatedWebGLVendors
                       then anomaly (''suspicious WebGL vendor: '' @ webglVendor) (- 15) r1
                       else r1)
             in (if list_ex (\<lambda>r. includesS webglRenderer r) automatedWebGLRenderers
                 then anomaly (''suspicious WebGL renderer: '' @ webglRenderer) (- 15) r2
                 else r2)
           else anomaly ''missing WebGL vendor or renderer'' (- 10) r1)"

definition knownAutomatedAudioFingerprints :: "string list" where
  "knownAutomatedAudioFingerprints = [''0000000000'', ''1234567890'']"

definition analyzeAudioFingerprint :: "string \<Rightarrow> partResult" where
  "analyzeAudioFingerprint audioFingerprint =
     (if audioFingerprint = [] then anomaly ''missing audio fingerprint'' 0 noPart
      else
        let r1 = (if length audioFingerprint < 10
                  then anomaly ''audio fingerprint length abnormal'' (- 5) noPart
                  else award 5 noPart)
        in if audioFingerprint \<in> set knownAutomatedAudioFingerprints
           then anomaly ''known automation audio fingerprint'' (- 10) r1 else r1)"

definition commonFonts :: "string list" where
  "commonFonts = [''Arial'', ''Times New Roman'', ''Courier New'', ''Verdana'', ''Georgia'']"

definition analyzeFonts :: "string list \<Rightarrow> partResult" where
  "analyzeFonts fonts =
     (if fonts = [] then anomaly ''missing font information'' 0 noPart
      else
        let r1 = (if length fonts < 5 then anomaly ''abnormally few fonts'' (- 10) noPart
                  else if length fonts > 5 \<and> length fonts < 20 then award 5 noPart
                  else if length fonts \<ge> 20 then award 10 noPart
                  else noPart);
            hasCommonFonts =
              list_ex (\<lambda>font. list_ex (\<lambda>f. includesS (toLowerCase f) (toLowerCase font)) fonts)
                commonFonts
        in if hasCommonFonts then award 5 r1
           else anomaly ''common fonts missing'' (- 5) r1)"

text \<open>A plugin string is split at commas, trimmed, and its empty entries dropped.\<close>

definition pluginArray :: "plugins \<Rightarrow> string list" where
  "pluginArray p =
     (case p of PluginArray ps \<Rightarrow> ps
      | PluginString s \<Rightarrow> filter (\<lambda>q. q \<noteq> []) (map trim (split CHR '','' s)))"

definition analyzePlugins :: "plugins \<Rightarrow> partResult" where
  "analyzePlugins plugins =
     (if plugins = PluginString [] then anomaly ''missing plugin information'' 0 noPart
      else if length (pluginArray plugins) = 0 then anomaly ''no browser plugins'' (- 10) noPart
      else if length (pluginArray plugins) < 3 then anomaly ''abnormally few plugins'' (- 5) noPart
      else award 5 noPart)"

definition geN :: "real option \<Rightarrow> real \<Rightarrow> bool" where
  "geN a b = (case a of None \<Rightarrow> False | Some x \<Rightarrow> x \<ge> b)"

definition analyzeScreenInfo ::
    "externals \<Rightarrow> string \<Rightarrow> real option \<Rightarrow> real option \<Rightarrow> partResult" where
  "analyzeScreenInfo X screenResolution colorDepth pixelRatio =
     (if screenResolution = [] then anomaly ''missing screen resolution'' 0 noPart
      else
        let parts = map (js_Number X) (split CHR ''x'' screenResolution);
            width = (case parts of [] \<Rightarrow> None | a # _ \<Rightarrow> a);
            height = (case parts of a # b # _ \<Rightarrow> b | _ \<Rightarrow> None);
            r1 = (if ltN width 320 \<or> ltN height 240
                  then anomaly ''screen abnormally small'' (- 10) noPart
                  else if geN width 320 \<and> geN height 240 then award 5 noPart
                  else noPart);
            r2 = (case orNullN colorDepth of
                    None \<Rightarrow> anomaly ''missing color depth'' 0 r1
                  | Some d \<Rightarrow> if d < 24 then anomaly ''color depth abnormally low'' (- 5) r1
                              else award 5 r1)
        in (case orNullN pixelRatio of
              None \<Rightarrow> anomaly ''missing pixel ratio'' 0 r2
            | Some p \<Rightarrow> if p < 1 \<or> p > 5 then anomaly ''pixel ratio abnormal'' (- 5) r2
                        else award 5 r2))"

definition analyzeHardwareInfo :: "real option \<Rightarrow> real option \<Rightarrow> partResult" where
  "analyzeHardwareInfo hardwareConcurrency deviceMemory =
     (let r1 = (case hardwareConcurrency of
                  None \<Rightarrow> anomaly ''missing hardware concurrency'' 0 noPart
                | Some h \<Rightarrow>
                    if h < 2 then anomaly ''hardware concurrency abnormally low'' (- 5) noPart
                    else if h \<ge> 2 \<and> h \<le> 16 then award 5 noPart
                    else if h > 16 then anomaly ''hardware concurrency abnormally high'' (- 5) noPart
                    else noPart)
      in (case deviceMemory of
            None \<Rightarrow> anomaly ''missing device memory'' 0 r1
          | Some m \<Rightarrow>
              if m < 2 then anomaly ''device memory abnormally low'' (- 5) r1
              else if m \<ge> 2 \<and> m \<le> 32 then award 5 r1
              else if m > 32 then anomaly ''device memory abnormally high'' (- 5) r1
              else r1))"

definition timezoneOffsets :: "(string \<times> real) list" where
  "timezoneOffsets =
     [(''America/New_York'', - 300), (''America/Chicago'', - 360), (''America/Denver'', - 420),
      (''America/Los_Angeles'', - 480), (''Europe/London'', 0), (''Europe/Berlin'', 60),
      (''Europe/Moscow'', 180), (''Asia/Tokyo'', 540), (''Asia/Shanghai'', 480),
      (''Australia/Sydney'', 600)]"

definition getExpectedTimezoneOffset :: "string \<Rightarrow> real option" where
  "getExpectedTimezoneOffset timezone = map_of timezoneOffsets timezone"

definition analyzeTimezone :: "string \<Rightarrow> real option \<Rightarrow> partResult" where
  "analyzeTimezone timezone timezoneOffset =
     (if timezone = [] then anomaly ''missing timezone'' 0 noPart
      else
        let r1 = (if timezone = ''UTC'' \<or> timezone = ''GMT'' \<or> startsWith timezone ''Etc/GMT''
                  then anomaly ''generic timezone'' (- 5) noPart
                  else award 5 noPart)
        in (case timezoneOffset of
              None \<Rightarrow> anomaly ''missing timezone offset'' 0 r1
            | Some off \<Rightarrow>
                (case getExpectedTimezoneOffset timezone of
                   None \<Rightarrow> award 5 r1
                 | Some expected \<Rightarrow>
                     if \<bar>off - expected\<bar> > 60
                     then anomaly ''timezone and offset do not match'' (- 10) r1
                     else award 5 r1)))"

definition analyzeTouchSupport :: "bool \<Rightarrow> real \<Rightarrow> partResult" where
  "analyzeTouchSupport touchSupport maxTouchPoints =
     (if touchSupport \<and> maxTouchPoints = 0
      then anomaly ''touch support and max touch points disagree'' (- 5) noPart
      else if \<not> touchSupport \<and> maxTouchPoints > 0
      then anomaly ''touch support and max touch points disagree'' (- 5) noPart
      else award 5 noPart)"

record fingerprintResult =
  fp_score :: int
  fp_reasons :: "string list"
  fp_fingerprint :: "string option"
  fp_components :: "components option"
  fp_anomalies :: "string list"

text \<open>A component that is present: add its score; when it reports anomalies, collect them
  and push the component's reason.\<close>

definition applyPart :: "partResult \<Rightarrow> string \<Rightarrow> fingerprintResult \<Rightarrow> fingerprintResult" where
  "applyPart p reason r =
     (if pr_anomalies p \<noteq> []
      then r\<lparr> fp_score := fp_score r + pr_score p,
              fp_anomalies := fp_anomalies r @ pr_anomalies p,
              fp_reasons := fp_reasons r @ [reason] \<rparr>
      else r\<lparr> fp_score := fp_score r + pr_score p \<rparr>)"

text \<open>A component that is missing: an anomaly, a penalty, and for the canvas and WebGL
  fingerprints also a reason.\<close>

definition missingPart :: "string \<Rightarrow> bool \<Rightarrow> int \<Rightarrow> fingerprintResult \<Rightarrow> fingerprintResult" where
  "missingPart a withReason n r =
     r\<lparr> fp_score := fp_score r - n, fp_anomalies := fp_anomalies r @ [a],
        fp_reasons := fp_reasons r @ (if withReason then [a] else []) \<rparr>"

definition clamp100 :: "int \<Rightarrow> int" where
  "clamp100 n = max 0 (min 100 n)"

text \<open>The component checks of \<open>analyzeFingerprint\<close>, in source order.\<close>

definition canvasStep :: "components \<Rightarrow> fingerprintResult \<Rightarrow> fingerprintResult" where
  "canvasStep c r =
     (case fc_canvasFingerprint c of
        Some f \<Rightarrow> applyPart (analyzeCanvasFingerprint f) ''Canvas fingerprint anomalous'' r
      | None \<Rightarrow> missingPart ''missing Canvas fingerprint'' True 15 r)"

definition webglStep :: "components \<Rightarrow> fingerprintResult \<Rightarrow> fingerprintResult" where
  "webglStep c r =
     (case fc_webglFingerprint c of
        Some f \<Rightarrow> applyPart (analyzeWebGLFingerprint f (fc_webglVendor c) (fc_webglRenderer c))
                    ''WebGL fingerprint anomalous'' r
      | None \<Rightarrow> missingPart ''missing WebGL fingerprint'' True 15 r)"

definition audioStep :: "components \<Rightarrow> fingerprintResult \<Rightarrow> fingerprintResult" where
  "audioStep c r =
     (case fc_audioFingerprint c of
        Some f \<Rightarrow> applyPart (analyzeAudioFingerprint f) ''audio fingerprint anomalous'' r
      | None \<Rightarrow> r)"

definition fontsStep :: "components \<Rightarrow> fingerprintResult \<Rightarrow> fingerprintResult" where
  "fontsStep c r =
     (if length (fc_fonts c) > 0
      then applyPart (analyzeFonts (fc_fonts c)) ''font list anomalous'' r
      else missingPart ''missing font information'' False 10 r)"

definition pluginsStep :: "components \<Rightarrow> fingerprintResult \<Rightarrow> fingerprintResult" where
  "pluginsStep c r =
     (case fc_plugins c of
        Some p \<Rightarrow> applyPart (analyzePlugins p) ''plugin list anomalous'' r
      | None \<Rightarrow> missingPart ''missing plugin information'' False 10 r)"

definition screenStep :: "externals \<Rightarrow> components \<Rightarrow> fingerprintResult \<Rightarrow> fingerprintResult" where
  "screenStep X c r =
     (if fc_screenResolution c \<noteq> []
      then applyPart (analyzeScreenInfo X (fc_screenResolution c) (fc_colorDepth c)
                        (fc_pixelRatio c))
             ''screen information anomalous'' r
      else r)"

definition hardwareStep :: "components \<Rightarrow> fingerprintResult \<Rightarrow> fingerprintResult" where
  "hardwareStep c r =
     (if fc_hardwareConcurrency c \<noteq> None \<or> fc_deviceMemory c \<noteq> None
      then applyPart (analyzeHardwareInfo (fc_hardwareConcurrency c) (fc_deviceMemory c))
             ''hardware information anomalous'' r
      else r)"

definition timezoneStep :: "components \<Rightarrow> fingerprintResult \<Rightarrow> fingerprintResult" where
  "timezoneStep c r =
     (if fc_timezone c \<noteq> []
      then applyPart (analyzeTimezone (fc_timezone c) (fc_timezoneOffset c))
             ''timezone information anomalous'' r
      else r)"

definition touchStep :: "components \<Rightarrow> fingerprintResult \<Rightarrow> fingerprintResult" where
  "touchStep c r =
     applyPart (analyzeTouchSupport (fc_touchSupport c) (fc_maxTouchPoints c))
       ''touch support information anomalous'' r"

text \<open>The last statement: the base of 50 is added and the score clamped.\<close>

definition finishFingerprint :: "fingerprintResult \<Rightarrow> fingerprintResult" where
  "finishFingerprint r = r\<lparr> fp_score := clamp100 (fp_score r + 50) \<rparr>"

text \<open>\<open>analyzeFingerprint\<close> from the extracted components on.\<close>

definition analyzeComponents :: "externals \<Rightarrow> components \<Rightarrow> fingerprintResult" where
  "analyzeComponents X c =
     finishFingerprint (touchStep c (timezoneStep c (hardwareStep c (screenStep X c
       (pluginsStep c (fontsStep c (audioStep c (webglStep c (canvasStep c
         \<lparr> fp_score = 0, fp_reasons = [],
           fp_fingerprint = Some (generateFingerprintHash X c),
           fp_components = Some c, fp_anomalies = [] \<rparr>)))))))))"

definition analyzeFingerprint :: "externals \<Rightarrow> clientInfo option \<Rightarrow> fingerprintResult" where
  "analyzeFingerprint X clientInfo =
     (case clientInfo of
        None \<Rightarrow> \<lparr> fp_score = 0, fp_reasons = [''missing client information''],
                  fp_fingerprint = None, fp_components = None, fp_anomalies = [] \<rparr>
      | Some ci \<Rightarrow> analyzeComponents X (extractFingerprintComponents ci))"

subsection \<open>Network analyzer\<close>

record cipher =
  cipher_name :: string
  cipher_version :: string

text \<open>The parts of an Express request the code reads. \<open>req_cipher\<close> is \<open>None\<close> when the
  connection has no \<open>getCipher\<close> or it returns nothing.\<close>

record request =
  req_headers :: headers
  req_connectionAddress :: "string option"
  req_socketAddress :: "string option"
  req_cipher :: "cipher option"

definition getClientIp :: "request \<Rightarrow> string option" where
  "getClientIp req =
     (if truthy (header (req_headers req) ''x-forwarded-for'')
      then Some (trim (firstPart CHR '','' (orEmpty (header (req_headers req) ''x-forwarded-for''))))
      else if truthy (header (req_headers req) ''x-real-ip'')
      then header (req_headers req) ''x-real-ip''
      else if truthy (req_connectionAddress req) then req_connectionAddress req
      else if truthy (req_socketAddress req) then req_socketAddress req
      else None)"

definition isPrivateIP :: "externals \<Rightarrow> string \<Rightarrow> bool" where
  "isPrivateIP X ip =
     (case ipaddr_range X ip of
        None \<Rightarrow> False
      | Some r \<Rightarrow> r = ''private'' \<or> r = ''loopback'' \<or> ip = ''::1'' \<or> ip = ''127.0.0.1'')"

definition countryTimezones :: "(string \<times> string list) list" where
  "countryTimezones =
     [(''US'', [''America/'']), (''CA'', [''America/'']), (''GB'', [''Europe/London'']),
      (''DE'', [''Europe/Berlin'']), (''FR'', [''Europe/Paris'']), (''JP'', [''Asia/Tokyo'']),
      (''CN'', [''Asia/Shanghai'', ''Asia/Chongqing'', ''Asia/Harbin'', ''Asia/Urumqi'']),
      (''IN'', [''Asia/Kolkata'']), (''AU'', [''Australia/'']),
      (''RU'', [''Europe/Moscow'', ''Asia/''])]"

definition getExpectedTimezones :: "string \<Rightarrow> string list" where
  "getExpectedTimezones countryCode =
     (case map_of countryTimezones countryCode of None \<Rightarrow> [] | Some tzs \<Rightarrow> tzs)"

definition checkIpTimezoneMatch :: "geoData option \<Rightarrow> string \<Rightarrow> bool" where
  "checkIpTimezoneMatch geo timezone =
     (case geo of
        None \<Rightarrow> True
      | Some g \<Rightarrow>
          if timezone = [] then True
          else if getExpectedTimezones (country g) = [] then True
          else list_ex (\<lambda>tz. includesS timezone tz) (getExpectedTimezones (country g)))"

definition countryLanguages :: "(string \<times> string list) list" where
  "countryLanguages =
     [(''US'', [''en'']), (''CA'', [''en'', ''fr'']), (''GB'', [''en'']), (''DE'', [''de'']),
      (''FR'', [''fr'']), (''JP'', [''ja'']), (''CN'', [''zh'']), (''IN'', [''hi'', ''en'']),
      (''AU'', [''en'']), (''RU'', [''ru''])]"

definition getExpectedLanguages :: "string \<Rightarrow> string list" where
  "getExpectedLanguages countryCode =
     (case map_of countryLanguages countryCode of None \<Rightarrow> [] | Some ls \<Rightarrow> ls)"

definition checkIpLanguageMatch :: "geoData option \<Rightarrow> string \<Rightarrow> bool" where
  "checkIpLanguageMatch geo language =
     (case geo of
        None \<Rightarrow> True
      | Some g \<Rightarrow>
          if language = [] then True
          else if getExpectedLanguages (country g) = [] then True
          else toLowerCase (firstPart CHR ''-'' language)
                 \<in> set (getExpectedLanguages (country g)))"

definition proxyHeaders :: "string list" where
  "proxyHeaders = [''via'', ''forwarded'', ''x-forwarded-for'', ''x-forwarded-host'',
     ''x-forwarded-proto'', ''x-real-ip'', ''proxy-connection'', ''proxy-authenticate'',
     ''x-proxy-id'', ''proxy-authorization'']"

text \<open>\<open>checkProxyHeaders\<close>: the reasons; \<open>detected\<close> holds exactly when there is one.\<close>

definition checkProxyHeaders :: "headers \<Rightarrow> string list" where
  "checkProxyHeaders hs =
     map (\<lambda>h. ''request header present: '' @ h) (filter (\<lambda>h. truthy (header hs h)) proxyHeaders)
     @ (if truthy (header hs ''cf-connecting-ip'') \<or> truthy (header hs ''cf-ipcountry'')
        then [''Cloudflare proxy detected''] else [])"

definition dataCenterRanges :: "(string \<times> string) list" where
  "dataCenterRanges =
     [(''3.0.0.0'', ''3.255.255.255''), (''13.32.0.0'', ''13.35.255.255''),
      (''13.224.0.0'', ''13.255.255.255''), (''52.0.0.0'', ''52.255.255.255''),
      (''54.0.0.0'', ''54.255.255.255''), (''34.64.0.0'', ''34.127.255.255''),
      (''35.184.0.0'', ''35.239.255.255''), (''13.64.0.0'', ''13.107.255.255''),
      (''40.64.0.0'', ''40.127.255.255''), (''45.55.0.0'', ''45.55.255.255''),
      (''104.131.0.0'', ''104.131.255.255''), (''138.197.0.0'', ''138.197.255.255''),
      (''45.33.0.0'', ''45.33.255.255''), (''96.126.96.0'', ''96.126.127.255''),
      (''173.255.192.0'', ''173.255.255.255'')]"

definition vpnRanges :: "(string \<times> string) list" where
  "vpnRanges =
     [(''5.254.0.0'', ''5.254.255.255''), (''31.13.191.0'', ''31.13.191.255''),
      (''172.241.131.0'', ''172.241.131.255''), (''185.159.157.0'', ''185.159.157.255'')]"

text \<open>The range loop of \<open>checkDatacenterIP\<close> and \<open>checkVPN\<close>: the first range that holds
  the address answers true, an exception answers false.\<close>

fun inRanges :: "externals \<Rightarrow> string \<Rightarrow> (string \<times> string) list \<Rightarrow> bool" where
  "inRanges X ip [] = False"
| "inRanges X ip ((start, end') # rs) =
     (case ip_between X ip start end' of
        None \<Rightarrow> False
      | Some b \<Rightarrow> if b then True else inRanges X ip rs)"

definition checkDatacenterIP :: "externals \<Rightarrow> string \<Rightarrow> bool" where
  "checkDatacenterIP X ip = inRanges X ip dataCenterRanges"

definition checkVPN :: "externals \<Rightarrow> string \<Rightarrow> bool" where
  "checkVPN X ip = inRanges X ip vpnRanges"

definition claimsBrowser :: "string \<Rightarrow> bool" where
  "claimsBrowser ua = (includesS ua ''chrome'' \<or> includesS ua ''firefox'' \<or> includesS ua ''safari'')"

text \<open>\<open>checkHeaderConsistency\<close>: the reasons; \<open>consistent\<close> holds exactly when there is none.\<close>

definition checkHeaderConsistency :: "headers \<Rightarrow> string list" where
  "checkHeaderConsistency hs =
     (let accept = orEmpty (header hs ''accept'');
          acceptLanguage = orEmpty (header hs ''accept-language'');
          ua = toLowerCase (orEmpty (header hs ''user-agent''))
      in (if accept \<noteq> [] \<and> acceptLanguage \<noteq> [] \<and> includesS accept ''application/json''
             \<and> \<not> includesS accept ''text/html''
          then [''Accept header inconsistent with a browser''] else [])
       @ (if ua \<noteq> [] \<and> accept \<noteq> [] \<and> claimsBrowser ua \<and> \<not> includesS accept ''text/html''
          then [''User-Agent inconsistent with Accept header''] else [])
       @ (if ua \<noteq> [] \<and> acceptLanguage \<noteq> [] \<and> claimsBrowser ua \<and> acceptLanguage = []
          then [''User-Agent inconsistent with Accept-Language header''] else []))"

definition insecureCiphers :: "string list" where
  "insecureCiphers = [''TLS_RSA_WITH_RC4_128_SHA'', ''TLS_RSA_WITH_RC4_128_MD5'',
     ''TLS_RSA_WITH_DES_CBC_SHA'', ''TLS_RSA_EXPORT_WITH_RC4_40_MD5'',
     ''TLS_RSA_EXPORT_WITH_DES40_CBC_SHA'']"

definition checkTLSFingerprint :: "cipher \<Rightarrow> string list" where
  "checkTLSFingerprint c =
     (if cipher_name c \<in> set insecureCiphers then [''insecure cipher suite''] else [])
     @ (if cipher_version c = ''TLSv1'' \<or> cipher_version c = ''SSLv3''
        then [''outdated TLS/SSL version''] else [])"

record networkResult =
  nw_score :: int
  nw_reasons :: "string list"
  nw_ipInfo :: "geoData option"
  nw_proxied :: bool
  nw_vpnDetected :: bool
  nw_datacenterIP :: bool
  nw_ipTimezoneMatch :: bool

definition networkStart :: networkResult where
  "networkStart = \<lparr> nw_score = 0, nw_reasons = [], nw_ipInfo = None, nw_proxied = False,
     nw_vpnDetected = False, nw_datacenterIP = False, nw_ipTimezoneMatch = True \<rparr>"

definition penalize :: "int \<Rightarrow> string \<Rightarrow> networkResult \<Rightarrow> networkResult" where
  "penalize n reason r = r\<lparr> nw_score := nw_score r - n, nw_reasons := nw_reasons r @ [reason] \<rparr>"

definition reward :: "int \<Rightarrow> networkResult \<Rightarrow> networkResult" where
  "reward n r = r\<lparr> nw_score := nw_score r + n \<rparr>"

definition geoChecks :: "clientInfo \<Rightarrow> geoData option \<Rightarrow> networkResult \<Rightarrow> networkResult" where
  "geoChecks ci geo r =
     (case geo of
        None \<Rightarrow> penalize 10 ''cannot geolocate the IP address'' r
      | Some g \<Rightarrow>
          let r1 = (if truthy (ci_timezone ci)
                    then (if checkIpTimezoneMatch geo (orEmpty (ci_timezone ci))
                          then reward 20 (r\<lparr> nw_ipTimezoneMatch := True \<rparr>)
                          else penalize 20 ''IP address and timezone do not match''
                                 (r\<lparr> nw_ipTimezoneMatch := False \<rparr>))
                    else r)
          in (if truthy (ci_language ci)
              then (if checkIpLanguageMatch geo (orEmpty (ci_language ci))
                    then reward 10 r1
                    else penalize 10 ''IP address and language do not match'' r1)
              else r1))"

text \<open>The checks of \<open>analyzeNetwork\<close> on a public address, in source order.\<close>

definition proxyStep :: "request \<Rightarrow> networkResult \<Rightarrow> networkResult" where
  "proxyStep req r =
     (if checkProxyHeaders (req_headers req) \<noteq> []
      then penalize 30
             (''proxy detected: '' @ join '', '' (checkProxyHeaders (req_headers req)))
             (r\<lparr> nw_proxied := True \<rparr>)
      else r)"

definition datacenterStep :: "externals \<Rightarrow> string \<Rightarrow> networkResult \<Rightarrow> networkResult" where
  "datacenterStep X ip r =
     (if checkDatacenterIP X ip
      then penalize 40 ''datacenter IP address'' (r\<lparr> nw_datacenterIP := True \<rparr>)
      else r\<lparr> nw_datacenterIP := False \<rparr>)"

definition vpnStep :: "externals \<Rightarrow> string \<Rightarrow> networkResult \<Rightarrow> networkResult" where
  "vpnStep X ip r =
     (if checkVPN X ip
      then penalize 20 ''VPN detected'' (r\<lparr> nw_vpnDetected := True \<rparr>)
      else r\<lparr> nw_vpnDetected := False \<rparr>)"

definition consistencyStep :: "request \<Rightarrow> networkResult \<Rightarrow> networkResult" where
  "consistencyStep req r =
     (if checkHeaderConsistency (req_headers req) \<noteq> []
      then penalize 15
             (''request headers inconsistent: ''
              @ join '', '' (checkHeaderConsistency (req_headers req))) r
      else reward 15 r)"

definition tlsStep :: "request \<Rightarrow> networkResult \<Rightarrow> networkResult" where
  "tlsStep req r =
     (case req_cipher req of
        None \<Rightarrow> r
      | Some c \<Rightarrow>
          if checkTLSFingerprint c \<noteq> []
          then penalize 10
                 (''TLS fingerprint anomalous: '' @ join '', '' (checkTLSFingerprint c)) r
          else reward 10 r)"

definition finishNetwork :: "networkResult \<Rightarrow> networkResult" where
  "finishNetwork r = r\<lparr> nw_score := clamp100 (nw_score r + 50) \<rparr>"

text \<open>\<open>analyzeNetwork\<close> once the address is known to be public.\<close>

definition analyzePublic ::
    "externals \<Rightarrow> clientInfo \<Rightarrow> request \<Rightarrow> string \<Rightarrow> networkResult" where
  "analyzePublic X ci req ip =
     finishNetwork (tlsStep req (consistencyStep req (vpnStep X ip (datacenterStep X ip
       (proxyStep req
         (geoChecks ci (geoip_lookup X ip) (networkStart\<lparr> nw_ipInfo := geoip_lookup X ip \<rparr>)))))))"

definition analyzeNetwork :: "externals \<Rightarrow> clientInfo \<Rightarrow> request \<Rightarrow> networkResult" where
  "analyzeNetwork X ci req =
     (if \<not> truthy (getClientIp req)
      then penalize 0 ''cannot determine the IP address'' networkStart
      else if isPrivateIP X (orEmpty (getClientIp req))
      then reward 10 (penalize 0 ''private IP address'' networkStart)
      else analyzePublic X ci req (orEmpty (getClientIp req)))"

subsection \<open>Sessions and the decision aggregator\<close>

datatype status = Pending | Verified | Rejected

record analysis =
  an_automation :: "automationResult option"
  an_behavior :: "behaviorResult option"
  an_network :: "networkResult option"
  an_fingerprint :: "fingerprintResult option"

record session =
  s_id :: string
  s_createdAt :: real
  s_status :: status
  s_clientInfo :: clientInfo
  s_events :: "event list"
  s_analysis :: analysis
  s_rejectionReason :: "string option"
  s_verifiedAt :: "real option"
  s_verificationScore :: "real option"

text \<open>The in-memory session table \<^verbatim>\<open>sessions\<close>.\<close>

type_synonym store = "string \<rightharpoonup> session"

text \<open>The body of an init request: the snapshot fields the route copies.\<close>

record snapshot =
  sn_fingerprint :: "string option"
  sn_canvasFingerprint :: "string option"
  sn_webglFingerprint :: "string option"
  sn_webglVendor :: "string option"
  sn_webglRenderer :: "string option"
  sn_audioFingerprint :: "string option"
  sn_screenResolution :: "string option"
  sn_colorDepth :: "real option"
  sn_pixelRatio :: "real option"
  sn_timezone :: "string option"
  sn_timezoneOffset :: "real option"
  sn_language :: "string option"
  sn_platform :: "string option"
  sn_hardwareConcurrency :: "real option"
  sn_deviceMemory :: "real option"
  sn_plugins :: "plugins option"
  sn_fonts :: "string list option"
  sn_touchSupport :: "bool option"
  sn_maxTouchPoints :: "real option"
  sn_webdriver :: "bool option"

text \<open>The \<open>clientInfo\<close> object of the init route. It has no \<open>navigator\<close> and no \<open>window\<close>
  entry; the client's \<open>webdriver\<close> flag is stored at the top level.\<close>

definition collectClientInfo :: "externals \<Rightarrow> request \<Rightarrow> snapshot \<Rightarrow> clientInfo" where
  "collectClientInfo X req body =
     \<lparr> ci_ip = getClientIp req,
       ci_userAgent = header (req_headers req) ''user-agent'',
       ci_parsedUserAgent = Some (ua_parser X (header (req_headers req) ''user-agent'')),
       ci_headers = req_headers req,
       ci_navigator = Absent,
       ci_window = Absent,
       ci_fingerprint = orNullS (sn_fingerprint body),
       ci_canvasFingerprint = orNullS (sn_canvasFingerprint body),
       ci_webglFingerprint = orNullS (sn_webglFingerprint body),
       ci_webglVendor = orNullS (sn_webglVendor body),
       ci_webglRenderer = orNullS (sn_webglRenderer body),
       ci_audioFingerprint = orNullS (sn_audioFingerprint body),
       ci_screenResolution = orNullS (sn_screenResolution body),
       ci_colorDepth = orNullN (sn_colorDepth body),
       ci_pixelRatio = orNullN (sn_pixelRatio body),
       ci_timezone = orNullS (sn_timezone body),
       ci_timezoneOffset = orNullN (sn_timezoneOffset body),
       ci_language = orNullS (sn_language body),
       ci_platform = orNullS (sn_platform body),
       ci_hardwareConcurrency = orNullN (sn_hardwareConcurrency body),
       ci_deviceMemory = orNullN (sn_deviceMemory body),
       ci_plugins = orNullP (sn_plugins body),
       ci_fonts = sn_fonts body,
       ci_touchSupport = Some (orFalse (sn_touchSupport body)),
       ci_maxTouchPoints = Some (orNum (sn_maxTouchPoints body) 0),
       ci_webdriver = Some (orFalse (sn_webdriver body)) \<rparr>"

record initResponse =
  ir_sessionId :: string
  ir_timestamp :: real
  ir_status :: status
  ir_rejectionReason :: "string option"

text \<open>The session object of the init route once the three analyses have run and the
  automation verdict has been applied.\<close>

definition newSession :: "externals \<Rightarrow> string \<Rightarrow> real \<Rightarrow> request \<Rightarrow> snapshot \<Rightarrow> session" where
  "newSession X sessionId timestamp req body =
     (let clientInfo = collectClientInfo X req body;
          automationResult = detectAutomation X clientInfo;
          fingerprintResult = analyzeFingerprint X (Some clientInfo);
          networkResult = analyzeNetwork X clientInfo req;
          reject = (isAutomated automationResult \<and> automationScore automationResult > 80)
      in \<lparr> s_id = sessionId, s_createdAt = timestamp,
           s_status = (if reject then Rejected else Pending),
           s_clientInfo = clientInfo, s_events = [],
           s_analysis = \<lparr> an_automation = Some automationResult, an_behavior = None,
                           an_network = Some networkResult,
                           an_fingerprint = Some fingerprintResult \<rparr>,
           s_rejectionReason =
             (if reject
              then Some (''automation tool detected: ''
                         @ join '', '' (detectedTools automationResult))
              else None),
           s_verifiedAt = None, s_verificationScore = None \<rparr>)"

text \<open>\<^verbatim>\<open>POST /init\<close>. \<open>sessionId\<close> is the fresh UUID and \<open>timestamp\<close> the clock reading.\<close>

definition init ::
    "externals \<Rightarrow> string \<Rightarrow> real \<Rightarrow> request \<Rightarrow> snapshot \<Rightarrow> store \<Rightarrow> initResponse \<times> store" where
  "init X sessionId timestamp req body sessions =
     (let s = newSession X sessionId timestamp req body
      in (\<lparr> ir_sessionId = sessionId, ir_timestamp = timestamp, ir_status = s_status s,
            ir_rejectionReason = orNullS (s_rejectionReason s) \<rparr>,
          sessions(sessionId \<mapsto> s)))"

datatype eventResponse =
    EventNotFound
  | EventRejected "string option"     \<comment> \<open>success false, with the rejection reason\<close>
  | EventAccepted nat                 \<comment> \<open>success true, with the event count\<close>
  | EventError                        \<comment> \<open>the handler's \<^verbatim>\<open>catch\<close>: status 500\<close>

text \<open>\<^verbatim>\<open>POST /event/:sessionId\<close>. The event is pushed before the behavior analysis runs,
  so it stays in the log when the analysis throws.\<close>

definition recordEvent ::
    "externals \<Rightarrow> string \<Rightarrow> real \<Rightarrow> string \<Rightarrow> evdata option \<Rightarrow> store
       \<Rightarrow> eventResponse \<times> store" where
  "recordEvent X sessionId now type' data sessions =
     (case sessions sessionId of
        None \<Rightarrow> (EventNotFound, sessions)
      | Some s \<Rightarrow>
          if s_status s = Rejected
          then (EventRejected (orNullS (s_rejectionReason s)), sessions)
          else
            let event = \<lparr> ev_type = type', ev_data = data, ev_timestamp = now \<rparr>;
                s1 = s\<lparr> s_events := s_events s @ [event] \<rparr>
            in if length (s_events s1) \<ge> 10 \<and> an_behavior (s_analysis s1) = None
               then (case analyzeBehavior X now (s_events s1) of
                       Inl err \<Rightarrow> (EventError, sessions(sessionId \<mapsto> s1))
                     | Inr behaviorResult \<Rightarrow>
                         let s2 = s1\<lparr> s_analysis :=
                                    (s_analysis s1)\<lparr> an_behavior := Some behaviorResult \<rparr> \<rparr>
                         in if \<not> bh_isHuman behaviorResult \<and> bh_score behaviorResult < 30
                            then (EventRejected (Some ''behavior pattern resembles a bot''),
                                  sessions(sessionId \<mapsto>
                                    s2\<lparr> s_status := Rejected,
                                       s_rejectionReason :=
                                         Some ''behavior pattern resembles a bot'' \<rparr>))
                            else (EventAccepted (length (s_events s2)),
                                  sessions(sessionId \<mapsto> s2)))
               else (EventAccepted (length (s_events s1)), sessions(sessionId \<mapsto> s1)))"

record automationDetails =
  ad_score :: int
  ad_isAutomated :: bool
  ad_detectedTools :: "string list"
  ad_reasons :: "string list"

record behaviorDetails =
  bd_score :: int
  bd_isHuman :: bool
  bd_reasons :: "string list"

record fingerprintDetails =
  fd_score :: int
  fd_fingerprint :: "string option"
  fd_anomalies :: "string list"

record networkDetails =
  nd_score :: int
  nd_proxied :: bool
  nd_vpnDetected :: bool
  nd_datacenterIP :: bool
  nd_ipTimezoneMatch :: bool

record details =
  dt_automation :: "automationDetails option"
  dt_behavior :: "behaviorDetails option"
  dt_fingerprint :: "fingerprintDetails option"
  dt_network :: "networkDetails option"

record verificationResult =
  vr_isHuman :: bool
  vr_score :: real
  vr_reasons :: "string list"
  vr_details :: details

definition automationHeaders :: "string list" where
  "automationHeaders = [''x-selenium'', ''x-selenium-ide-recorder'', ''x-requested-with'',
     ''selenium'', ''driver'', ''webdriver'', ''puppeteer'', ''playwright'', ''headless'',
     ''cypress'']"

definition checkSuspiciousHeaders :: "headers \<Rightarrow> string list" where
  "checkSuspiciousHeaders hs =
     map fst (filter (\<lambda>(name, v).
        list_ex (\<lambda>h. includesS (toLowerCase name) h) automationHeaders
        \<or> (v \<noteq> [] \<and> list_ex (\<lambda>h. includesS (toLowerCase v) h) automationHeaders)) hs)"

record requestPattern =
  rp_suspicious :: bool
  rp_reason :: string

text \<open>\<^verbatim>\<open>events.some((event, index) => ...)\<close>: a click at a position after the first with
  no pointer move before it.\<close>

definition hasClickWithoutMove :: "event list \<Rightarrow> bool" where
  "hasClickWithoutMove events =
     list_ex (\<lambda>index. ev_type (events ! index) = ''click'' \<and> index > 0
                \<and> \<not> list_ex isMouseMove (take index events))
       [0..<length events]"

definition analyzeRequestPattern :: "session \<Rightarrow> requestPattern" where
  "analyzeRequestPattern s =
     (let r0 = \<lparr> rp_suspicious = False, rp_reason = [] \<rparr>;
          r1 = (if length (s_events s) \<ge> 5
                   \<and> cvBelow (diffs (map ev_timestamp (s_events s))) 0.1
                then \<lparr> rp_suspicious = True,
                       rp_reason = ''event time intervals are too regular'' \<rparr>
                else r0)
      in if length (s_events s) \<ge> 3 \<and> hasClickWithoutMove (s_events s)
         then \<lparr> rp_suspicious = True, rp_reason = ''click without any mouse movement'' \<rparr>
         else r1)"

text \<open>The running result of \<open>verifySession\<close>: the score before the base of 50 is added,
  the reasons and the details.\<close>

record tally =
  t_score :: real
  t_reasons :: "string list"
  t_details :: details

definition adjust :: "real \<Rightarrow> string list \<Rightarrow> tally \<Rightarrow> tally" where
  "adjust n rs t = t\<lparr> t_score := t_score t + n, t_reasons := t_reasons t @ rs \<rparr>"

text \<open>\<^verbatim>\<open>xs.slice(0, n).join(', ')\<close> followed by the "and more" marker.\<close>

definition firstFew :: "nat \<Rightarrow> string list \<Rightarrow> string" where
  "firstFew n xs = join '', '' (take n xs) @ (if length xs > n then '' etc.'' else [])"

definition automationStep :: "session \<Rightarrow> tally \<Rightarrow> tally" where
  "automationStep s t =
     (case an_automation (s_analysis s) of
        None \<Rightarrow> t
      | Some a \<Rightarrow>
          let t1 = t\<lparr> t_details := (t_details t)\<lparr> dt_automation :=
                     Some \<lparr> ad_score = 100 - automationScore a, ad_isAutomated = isAutomated a,
                            ad_detectedTools = detectedTools a, ad_reasons = reasons a \<rparr> \<rparr> \<rparr>
          in if isAutomated a
             then adjust (- 40) [''automation tool detected: '' @ join '', '' (detectedTools a)] t1
             else adjust 20 [] t1)"

definition behaviorStep :: "session \<Rightarrow> tally \<Rightarrow> tally" where
  "behaviorStep s t =
     (case an_behavior (s_analysis s) of
        Some b \<Rightarrow>
          let t1 = t\<lparr> t_details := (t_details t)\<lparr> dt_behavior :=
                     Some \<lparr> bd_score = bh_score b, bd_isHuman = bh_isHuman b,
                            bd_reasons = bh_reasons b \<rparr> \<rparr> \<rparr>
          in if bh_isHuman b then adjust 30 [] t1
             else adjust (- 30) [''behavior analysis: '' @ join '', '' (bh_reasons b)] t1
      | None \<Rightarrow>
          if length (s_events s) < 5 then adjust (- 20) [''too few user interaction events''] t
          else t)"

definition fingerprintStep :: "session \<Rightarrow> tally \<Rightarrow> tally" where
  "fingerprintStep s t =
     (case an_fingerprint (s_analysis s) of
        None \<Rightarrow> t
      | Some f \<Rightarrow>
          adjust ((real_of_int (fp_score f) - 50) / 2)
            (if length (fp_anomalies f) > 0
             then [''fingerprint anomalies: '' @ firstFew 3 (fp_anomalies f)] else [])
            (t\<lparr> t_details := (t_details t)\<lparr> dt_fingerprint :=
                 Some \<lparr> fd_score = fp_score f, fd_fingerprint = fp_fingerprint f,
                        fd_anomalies = fp_anomalies f \<rparr> \<rparr> \<rparr>))"

definition networkStep :: "session \<Rightarrow> tally \<Rightarrow> tally" where
  "networkStep s t =
     (case an_network (s_analysis s) of
        None \<Rightarrow> t
      | Some n \<Rightarrow>
          adjust ((real_of_int (nw_score n) - 50) / 2)
            (if length (nw_reasons n) > 0
             then [''network analysis: '' @ firstFew 2 (nw_reasons n)] else [])
            (t\<lparr> t_details := (t_details t)\<lparr> dt_network :=
                 Some \<lparr> nd_score = nw_score n, nd_proxied = nw_proxied n,
                        nd_vpnDetected = nw_vpnDetected n, nd_datacenterIP = nw_datacenterIP n,
                        nd_ipTimezoneMatch = nw_ipTimezoneMatch n \<rparr> \<rparr> \<rparr>))"

definition ageStep :: "real \<Rightarrow> session \<Rightarrow> tally \<Rightarrow> tally" where
  "ageStep now s t =
     (let sessionAge = now - s_createdAt s
      in if sessionAge < 1000 then adjust (- 30) [''session abnormally short''] t
         else if sessionAge < 3000 \<and> length (s_events s) > 10
         then adjust (- 20) [''many events in a short time''] t
         else t)"

definition eventCountStep :: "session \<Rightarrow> tally \<Rightarrow> tally" where
  "eventCountStep s t =
     (if length (s_events s) = 0 then adjust (- 30) [''no user interaction events''] t else t)"

definition deviceInfoStep :: "session \<Rightarrow> tally \<Rightarrow> tally" where
  "deviceInfoStep s t =
     (if truthy (ci_screenResolution (s_clientInfo s)) \<and> truthy (ci_timezone (s_clientInfo s))
      then t else adjust (- 15) [''key device information missing''] t)"

definition userAgentStep :: "session \<Rightarrow> tally \<Rightarrow> tally" where
  "userAgentStep s t =
     (if truthy (ci_userAgent (s_clientInfo s))
         \<and> (case ci_parsedUserAgent (s_clientInfo s) of
               None \<Rightarrow> False | Some p \<Rightarrow> pua_browser p \<and> pua_os p)
      then t else adjust (- 15) [''user agent information incomplete''] t)"

definition headerStep :: "request \<Rightarrow> tally \<Rightarrow> tally" where
  "headerStep req t =
     (if length (checkSuspiciousHeaders (req_headers req)) > 0
      then adjust (- 15)
             [''suspicious request headers: ''
              @ join '', '' (checkSuspiciousHeaders (req_headers req))] t
      else t)"

definition patternStep :: "session \<Rightarrow> tally \<Rightarrow> tally" where
  "patternStep s t =
     (if rp_suspicious (analyzeRequestPattern s)
      then adjust (- 20)
             [''abnormal request pattern: '' @ rp_reason (analyzeRequestPattern s)] t
      else t)"

definition emptyTally :: tally where
  "emptyTally = \<lparr> t_score = 0, t_reasons = [],
     t_details = \<lparr> dt_automation = None, dt_behavior = None, dt_fingerprint = None,
                   dt_network = None \<rparr> \<rparr>"

text \<open>Checks 1 to 9 of \<open>verifySession\<close>, in source order.\<close>

definition signals :: "real \<Rightarrow> session \<Rightarrow> request \<Rightarrow> tally" where
  "signals now s req =
     headerStep req (userAgentStep s (deviceInfoStep s (eventCountStep s (ageStep now s
       (networkStep s (fingerprintStep s (behaviorStep s (automationStep s emptyTally))))))))"

definition finalScore :: "real \<Rightarrow> real" where
  "finalScore x = max 0 (min 100 (x + 50))"

definition verifySession :: "real \<Rightarrow> session \<Rightarrow> request \<Rightarrow> verificationResult" where
  "verifySession now s req =
     (let t = patternStep s (signals now s req)
      in \<lparr> vr_isHuman = (finalScore (t_score t) \<ge> 60), vr_score = finalScore (t_score t),
           vr_reasons = t_reasons t, vr_details = t_details t \<rparr>)"

record cachedResult =
  cr_isHuman :: bool
  cr_score :: real
  cr_reasons :: "string list"
  cr_automationDetected :: bool
  cr_detectedTools :: "string list"

datatype verifyResponse =
    VerifyNotFound
  | VerifyCached cachedResult          \<comment> \<open>the summary of an already evaluated session\<close>
  | VerifyResult verificationResult    \<comment> \<open>the result of the evaluation just made\<close>
  | VerifyError                        \<comment> \<open>the handler's \<^verbatim>\<open>catch\<close>: status 500\<close>

definition cachedVerdict :: "session \<Rightarrow> cachedResult" where
  "cachedVerdict s =
     \<lparr> cr_isHuman = (s_status s = Verified),
       cr_score = orNum (s_verificationScore s) 0,
       cr_reasons = (case orNullS (s_rejectionReason s) of None \<Rightarrow> [] | Some r \<Rightarrow> [r]),
       cr_automationDetected =
         (case an_automation (s_analysis s) of None \<Rightarrow> False | Some a \<Rightarrow> isAutomated a),
       cr_detectedTools =
         (case an_automation (s_analysis s) of None \<Rightarrow> [] | Some a \<Rightarrow> detectedTools a) \<rparr>"

text \<open>The state update of the verify route after \<open>verifySession\<close> returned.\<close>

definition conclude :: "real \<Rightarrow> verificationResult \<Rightarrow> session \<Rightarrow> session" where
  "conclude now r s =
     s\<lparr> s_status := (if vr_isHuman r then Verified else Rejected),
        s_verifiedAt := Some now,
        s_verificationScore := Some (vr_score r),
        s_rejectionReason :=
          (if vr_isHuman r then s_rejectionReason s else Some (join '', '' (vr_reasons r))),
        s_events := (if length (s_events s) > 50 then take 50 (s_events s) else s_events s) \<rparr>"

text \<open>\<^verbatim>\<open>POST /verify/:sessionId\<close>.\<close>

definition verify ::
    "externals \<Rightarrow> string \<Rightarrow> real \<Rightarrow> request \<Rightarrow> store \<Rightarrow> verifyResponse \<times> store" where
  "verify X sessionId now req sessions =
     (case sessions sessionId of
        None \<Rightarrow> (VerifyNotFound, sessions)
      | Some s \<Rightarrow>
          if s_status s \<noteq> Pending then (VerifyCached (cachedVerdict s), sessions)
          else
            (case (if an_behavior (s_analysis s) = None \<and> length (s_events s) > 0
                   then (case analyzeBehavior X now (s_events s) of
                           Inl err \<Rightarrow> Inl err
                         | Inr b \<Rightarrow> Inr (s\<lparr> s_analysis :=
                                             (s_analysis s)\<lparr> an_behavior := Some b \<rparr> \<rparr>))
                   else Inr s) of
               Inl err \<Rightarrow> (VerifyError, sessions)
             | Inr s1 \<Rightarrow>
                 let verificationResult = verifySession now s1 req
                 in (VerifyResult verificationResult,
                     sessions(sessionId \<mapsto> conclude now verificationResult s1))))"

record statusResponse =
  st_status :: status
  st_createdAt :: real
  st_verifiedAt :: "real option"
  st_eventsCount :: nat
  st_rejectionReason :: "string option"
  st_automationDetected :: bool
  st_detectedTools :: "string list"

text \<open>\<^verbatim>\<open>GET /status/:sessionId\<close>: reads the session, changes nothing.\<close>

definition getStatus :: "string \<Rightarrow> store \<Rightarrow> statusResponse option" where
  "getStatus sessionId sessions =
     (case sessions sessionId of
        None \<Rightarrow> None
      | Some s \<Rightarrow> Some
          \<lparr> st_status = s_status s, st_createdAt = s_createdAt s,
            st_verifiedAt = orNullN (s_verifiedAt s),
            st_eventsCount = length (s_events s),
            st_rejectionReason = orNullS (s_rejectionReason s),
            st_automationDetected =
              (case an_automation (s_analysis s) of None \<Rightarrow> False | Some a \<Rightarrow> isAutomated a),
            st_detectedTools =
              (case an_automation (s_analysis s) of None \<Rightarrow> [] | Some a \<Rightarrow> detectedTools a) \<rparr>)"

text \<open>\<open>cleanupSessions\<close>: sessions older than 24 hours are deleted.\<close>

definition cleanupSessions :: "real \<Rightarrow> store \<Rightarrow> store" where
  "cleanupSessions now sessions =
     (\<lambda>sessionId. case sessions sessionId of
        None \<Rightarrow> None
      | Some s \<Rightarrow> if now - s_createdAt s > 24 * 60 * 60 * 1000 then None else Some s)"

text \<open>The operations of the session lifecycle manager, each with the inputs the route
  receives, and a run of operations on the session table.\<close>

datatype operation =
    CreateSession string real request snapshot
  | RecordEvent string real string "evdata option"
  | Evaluate string real request
  | GetStatus string
  | Sweep real

fun apply_op :: "externals \<Rightarrow> operation \<Rightarrow> store \<Rightarrow> store" where
  "apply_op X (CreateSession sessionId now req body) sessions =
     snd (init X sessionId now req body sessions)"
| "apply_op X (RecordEvent sessionId now type' data) sessions =
     snd (recordEvent X sessionId now type' data sessions)"
| "apply_op X (Evaluate sessionId now req) sessions = snd (verify X sessionId now req sessions)"
| "apply_op X (GetStatus sessionId) sessions = sessions"
| "apply_op X (Sweep now) sessions = cleanupSessions now sessions"

fun run :: "externals \<Rightarrow> operation list \<Rightarrow> store \<Rightarrow> store" where
  "run X [] sessions = sessions"
| "run X (op # ops) sessions = run X ops (apply_op X op sessions)"

definition statusOf :: "store \<Rightarrow> string \<Rightarrow> status option" where
  "statusOf sessions sessionId = map_option s_status (sessions sessionId)"

text \<open>The result an evaluation response carries, when it carries a fresh one.\<close>

definition freshResult :: "verifyResponse \<Rightarrow> verificationResult option" where
  "freshResult r = (case r of VerifyResult v \<Rightarrow> Some v | _ \<Rightarrow> None)"

subsection \<open>Test doubles and sample inputs\<close>

text \<open>Stand-ins for the external libraries, used to run the model on concrete inputs:
  parsers that recognise nothing, a geolocation service that places every address in the
  US, an address library that finds every address public and outside the listed ranges,
  a PCA that reports a straight line, a decimal reader for \<^verbatim>\<open>Number\<close>, a JSON printer
  and, in place of SHA-256, the identity.\<close>

fun readDigits :: "nat \<Rightarrow> string \<Rightarrow> nat option" where
  "readDigits acc [] = Some acc"
| "readDigits acc (c # cs) =
     (if 48 \<le> (of_char c :: nat) \<and> (of_char c :: nat) \<le> 57
      then readDigits (acc * 10 + (of_char c - 48)) cs else None)"

definition stubNumber :: "string \<Rightarrow> real option" where
  "stubNumber s = map_option real (readDigits 0 s)"

fun showNat :: "nat \<Rightarrow> string" where
  "showNat n = (if n < 10 then [''0123456789'' ! n]
                else showNat (n div 10) @ [''0123456789'' ! (n mod 10)])"

declare showNat.simps [simp del]

fun fracDigits :: "nat \<Rightarrow> real \<Rightarrow> string" where
  "fracDigits 0 x = []"
| "fracDigits (Suc k) x =
     (if x = 0 then []
      else (''0123456789'' ! nat \<lfloor>x * 10\<rfloor>)
           # fracDigits k (x * 10 - real_of_int \<lfloor>x * 10\<rfloor>))"

definition showNumber :: "real \<Rightarrow> string" where
  "showNumber x =
     (if x < 0 then ''-'' else []) @ showNat (nat \<lfloor>\<bar>x\<bar>\<rfloor>)
     @ (if frac \<bar>x\<bar> = 0 then [] else ''.'' @ fracDigits 17 (frac \<bar>x\<bar>))"

definition quote :: "string \<Rightarrow> string" where
  "quote s = [CHR 0x22]
     @ concat (map (\<lambda>c. if c = CHR 0x22 \<or> c = CHR 0x5C then [CHR 0x5C, c] else [c]) s)
     @ [CHR 0x22]"

fun stubStringify :: "json \<Rightarrow> string" where
  "stubStringify JNull = ''null''"
| "stubStringify (JBool b) = (if b then ''true'' else ''false'')"
| "stubStringify (JNum x) = showNumber x"
| "stubStringify (JStr s) = quote s"
| "stubStringify (JArr js) = ''['' @ join '','' (map stubStringify js) @ '']''"
| "stubStringify (JObj kvs) =
     ''{'' @ join '','' (map (\<lambda>(k, v). quote k @ '':'' @ stubStringify v) kvs) @ ''}''"

definition stubHash :: "string \<Rightarrow> string" where
  "stubHash s = s"

definition stubExternals :: externals where
  "stubExternals =
     \<lparr> bowser_parse = (\<lambda>ua. Some \<lparr> bowser_browser_name = None, bowser_os_name = None \<rparr>),
       device_parse = (\<lambda>ua. Some \<lparr> dd_client_name = None, dd_os_name = None \<rparr>),
       ua_parser = (\<lambda>ua. \<lparr> pua_browser = True, pua_os = True \<rparr>),
       pca_explained = (\<lambda>cs. PcaRatio 1),
       geoip_lookup = (\<lambda>ip. Some \<lparr> country = ''US'' \<rparr>),
       ipaddr_range = (\<lambda>ip. Some ''unicast''),
       ip_between = (\<lambda>ip start end'. Some False),
       sha256_hex = stubHash,
       json_stringify = stubStringify,
       js_Number = stubNumber \<rparr>"

definition noSnapshot :: snapshot where
  "noSnapshot =
     \<lparr> sn_fingerprint = None, sn_canvasFingerprint = None, sn_webglFingerprint = None,
       sn_webglVendor = None, sn_webglRenderer = None, sn_audioFingerprint = None,
       sn_screenResolution = None, sn_colorDepth = None, sn_pixelRatio = None,
       sn_timezone = None, sn_timezoneOffset = None, sn_language = None, sn_platform = None,
       sn_hardwareConcurrency = None, sn_deviceMemory = None, sn_plugins = None,
       sn_fonts = None, sn_touchSupport = None, sn_maxTouchPoints = None,
       sn_webdriver = None \<rparr>"

text \<open>A desktop browser's snapshot: every component but the font list present and
  plausible.\<close>

definition fullSnapshot :: snapshot where
  "fullSnapshot =
     \<lparr> sn_fingerprint = Some ''5d41402abc4b2a76'',
       sn_canvasFingerprint = Some ''a3f1c2d4e5b6a7988776655443322110ffeeddccbbaa99887766'',
       sn_webglFingerprint = Some ''9e8d7c6b5a4f3e2d1c0b9a8f7e6d5c4b3a2f1e0d9c8b7a6f5e4d'',
       sn_webglVendor = Some ''Intel'', sn_webglRenderer = Some ''Iris'',
       sn_audioFingerprint = Some ''124.0434752'',
       sn_screenResolution = Some ''1440x900'', sn_colorDepth = Some 24,
       sn_pixelRatio = Some 2, sn_timezone = Some ''America/New_York'',
       sn_timezoneOffset = Some (- 300), sn_language = Some ''en-US'',
       sn_platform = Some ''MacIntel'', sn_hardwareConcurrency = Some 8,
       sn_deviceMemory = Some 8, sn_plugins = Some (PluginString ''a,b,c''),
       sn_fonts = None, sn_touchSupport = Some False, sn_maxTouchPoints = Some 0,
       sn_webdriver = Some False \<rparr>"

definition browserHeaders :: headers where
  "browserHeaders =
     [(''user-agent'', ''Mozilla/5.0''), (''accept'', ''text/html''),
      (''accept-language'', ''en-US'')]"

definition browserRequest :: request where
  "browserRequest =
     \<lparr> req_headers = browserHeaders, req_connectionAddress = Some ''73.162.10.20'',
       req_socketAddress = Some ''73.162.10.20'',
       req_cipher = Some \<lparr> cipher_name = ''TLS_AES_128_GCM_SHA256'',
                            cipher_version = ''TLSv1.3'' \<rparr> \<rparr>"

text \<open>A request whose user agent names three automation tools.\<close>

definition toolRequest :: request where
  "toolRequest = browserRequest\<lparr> req_headers :=
     [(''user-agent'', ''Selenium HeadlessChrome Playwright''),
      (''accept'', ''text/html''), (''accept-language'', ''en-US'')] \<rparr>"

definition bareClientInfo :: clientInfo where
  "bareClientInfo =
     \<lparr> ci_ip = None, ci_userAgent = None, ci_parsedUserAgent = None, ci_headers = [],
       ci_navigator = Absent, ci_window = Absent, ci_fingerprint = None,
       ci_canvasFingerprint = None, ci_webglFingerprint = None, ci_webglVendor = None,
       ci_webglRenderer = None, ci_audioFingerprint = None, ci_screenResolution = None,
       ci_colorDepth = None, ci_pixelRatio = None, ci_timezone = None,
       ci_timezoneOffset = None, ci_language = None, ci_platform = None,
       ci_hardwareConcurrency = None, ci_deviceMemory = None, ci_plugins = None,
       ci_fonts = None, ci_touchSupport = None, ci_maxTouchPoints = None,
       ci_webdriver = None \<rparr>"

text \<open>A client whose window carries one Selenium property, with an unremarkable user
  agent and an Accept-Language header.\<close>

definition seleniumWindowClient :: clientInfo where
  "seleniumWindowClient = bareClientInfo
     \<lparr> ci_userAgent := Some ''x'',
       ci_headers := [(''user-agent'', ''x''), (''accept-language'', ''en-US'')],
       ci_window := Obj (emptyWindow\<lparr> win_props := [''_selenium''] \<rparr>) \<rparr>"

text \<open>A client whose navigator reports the \<open>webdriver\<close> flag.\<close>

definition webdriverClient :: clientInfo where
  "webdriverClient = bareClientInfo
     \<lparr> ci_userAgent := Some ''x'',
       ci_headers := [(''user-agent'', ''x''), (''accept-language'', ''en-US'')],
       ci_navigator := Obj (emptyNavigator\<lparr> nav_webdriver := True \<rparr>) \<rparr>"

definition keypress :: "real \<Rightarrow> operation" where
  "keypress t = RecordEvent ''s1'' t ''keypress'' None"

definition mouseEvent :: "real \<Rightarrow> real \<Rightarrow> real \<Rightarrow> event" where
  "mouseEvent x y t = \<lparr> ev_type = ''mousemove'',
     ev_data = Some \<lparr> d_x = Some x, d_y = Some y, d_timestamp = Some t \<rparr>, ev_timestamp = t \<rparr>"

definition bareEvent :: "string \<Rightarrow> real \<Rightarrow> event" where
  "bareEvent type' t = \<lparr> ev_type = type', ev_data = None, ev_timestamp = t \<rparr>"

text \<open>A snapshot that reports nothing but the client's \<open>webdriver\<close> flag.\<close>

definition webdriverSnapshot :: snapshot where
  "webdriverSnapshot = noSnapshot\<lparr> sn_webdriver := Some True \<rparr>"

text \<open>The sample session right after creation, and the same session holding given events.\<close>

definition sampleSession :: session where
  "sampleSession = newSession stubExternals ''s1'' 1000 browserRequest fullSnapshot"

definition sessionWith :: "event list \<Rightarrow> session" where
  "sessionWith events = sampleSession\<lparr> s_events := events \<rparr>"

text \<open>A run that creates the sample session and evaluates it five seconds later, and
  ten key presses sent afterwards.\<close>

definition createAndEvaluate :: "operation list" where
  "createAndEvaluate =
     [CreateSession ''s1'' 1000 browserRequest fullSnapshot, Evaluate ''s1'' 6000 browserRequest]"

definition tenKeypresses :: "operation list" where
  "tenKeypresses = map keypress [7000, 7100, 7200, 7300, 7400, 7500, 7600, 7700, 7800, 7900]"

text \<open>Ten pointer moves from \<open>(x0, y0)\<close>, one every 100 ms from \<open>t0\<close>, each advancing by
  \<open>(dx, dy)\<close>; the client's timestamp and the server's agree.\<close>

definition steadyMoves :: "real \<Rightarrow> real \<Rightarrow> real \<Rightarrow> real \<Rightarrow> real \<Rightarrow> event list" where
  "steadyMoves x0 y0 dx dy t0 =
     map (\<lambda>i. mouseEvent (x0 + real i * dx) (y0 + real i * dy) (t0 + 100 * real i)) [0..<10]"

text \<open>Five pointer moves followed by two clicks that carry no payload.\<close>

definition clicksWithoutPayload :: "event list" where
  "clicksWithoutPayload =
     [mouseEvent 10 10 1000, mouseEvent 20 15 1100, mouseEvent 30 25 1200,
      mouseEvent 45 30 1300, mouseEvent 50 50 1400,
      bareEvent ''click'' 1500, bareEvent ''click'' 2100]"

section \<open>Properties\<close>

subsection \<open>Evaluation rules\<close>

lemmas string_defs = toLowerCase_def toLowerChar_def firstPart_def trim_def isSpace_def
  truthy_def header_def orEmpty_def

lemmas automation_defs = detectAutomation_def runDetectors_def detectWebDriver_def detectSelenium_def
  detectPuppeteer_def detectPlaywright_def detectBrowserInconsistency_def
  detectAbnormalScreenSize_def detectAbnormalTimezone_def detectAbnormalPluginCount_def
  detectAbnormalHardwareConcurrency_def detectAbnormalLanguage_def
  checkUserAgentConsistency_def flagTool_def addScore_def stepTool_def stepInconsistency_def
  stepFlag_def stepThreshold_def capScore_def initialResult_def orDefault_def
  emptyNavigator_def emptyWindow_def noTool_def mark_def atLeast30_def caught_def
  languageCheck_def seleniumProps_def seleniumWindowProps_def getPlatformOS_def ltN_def
  ratioAbnormal_def commonAutomatedSizes_def commonAutomatedTimezones_def

lemmas stub_defs = stubExternals_def stubNumber_def

subsection \<open>The automation detector\<close>

lemma toolsNamed_steps:
  "toolsNamed (flagTool tool n rs r)"
  "toolsNamed r \<Longrightarrow> toolsNamed (stepTool tool t r)"
  "toolsNamed r \<Longrightarrow> toolsNamed (stepInconsistency t r)"
  "toolsNamed r \<Longrightarrow> toolsNamed (stepFlag c n reason r)"
  "toolsNamed r \<Longrightarrow> toolsNamed (stepThreshold r)"
  "toolsNamed r \<Longrightarrow> toolsNamed (capScore r)"
  "toolsNamed initialResult"
  by (simp_all add: toolsNamed_def flagTool_def addScore_def stepTool_def stepInconsistency_def
      stepFlag_def stepThreshold_def capScore_def initialResult_def)

lemma toolsNamed_detectAutomation: "toolsNamed (detectAutomation X ci)"
  unfolding detectAutomation_def runDetectors_def
  by (intro toolsNamed_steps) (simp_all add: toolsNamed_steps)

lemma isAutomated_steps:
  "isAutomated (flagTool tool n rs r) = True"
  "isAutomated (stepTool tool t r) = (isAutomated r \<or> detected t)"
  "isAutomated (stepInconsistency t r) = isAutomated r"
  "isAutomated (stepFlag c n reason r) = isAutomated r"
  "isAutomated (stepThreshold r) = (isAutomated r \<or> automationScore r \<ge> 50)"
  "isAutomated (capScore r) = isAutomated r"
  "isAutomated initialResult = False"
  "automationScore (stepThreshold r) = automationScore r"
  "automationScore (capScore r) = min (automationScore r) 100"
  by (auto simp: flagTool_def addScore_def stepTool_def stepInconsistency_def
      stepFlag_def stepThreshold_def capScore_def initialResult_def)

text \<open>The tools named so far stay named, and the score never decreases, when the
  detectors only add non-negative amounts.\<close>

lemma score_simps:
  "score noTool = 0" "score (mark d n rs r) = score r + n" "score (atLeast30 r) = score r"
  "score (caught r) = score r + 5"
  by (simp_all add: noTool_def mark_def atLeast30_def caught_def)

lemma languageCheck_nonneg: "0 \<le> score r \<Longrightarrow> 0 \<le> score (languageCheck hs n r)"
  by (simp add: languageCheck_def score_simps split: option.splits)

lemma score_nonneg:
  "0 \<le> score (detectSelenium ua nav win)"
  "0 \<le> score (detectPuppeteer ua nav win)"
  "0 \<le> score (detectPlaywright ua nav win)"
  "0 \<le> score (detectBrowserInconsistency X ua hs nav)"
     apply (simp add: detectSelenium_def score_simps Let_def split: option.splits)
    apply (simp add: detectPuppeteer_def score_simps Let_def split: option.splits)
   apply (simp add: detectPlaywright_def score_simps Let_def split: option.splits)
  apply (simp add: detectBrowserInconsistency_def score_simps Let_def languageCheck_nonneg
      split: option.splits)
  done

lemma keeps_steps:
  "0 \<le> score t \<Longrightarrow> keeps tool k r \<Longrightarrow> keeps tool k (stepTool tool' t r)"
  "0 \<le> score t \<Longrightarrow> keeps tool k r \<Longrightarrow> keeps tool k (stepInconsistency t r)"
  "0 \<le> n \<Longrightarrow> keeps tool k r \<Longrightarrow> keeps tool k (stepFlag c n reason r)"
  "keeps tool k r \<Longrightarrow> keeps tool k (stepThreshold r)"
  by (auto simp: keeps_def flagTool_def addScore_def stepTool_def stepInconsistency_def
      stepFlag_def stepThreshold_def)

lemma webdriver_kept:
  assumes "detectWebDriver (orDefault emptyNavigator (ci_navigator ci))"
  shows "isAutomated (detectAutomation X ci) \<and> ''WebDriver'' \<in> set (detectedTools (detectAutomation X ci))
     \<and> 30 \<le> automationScore (detectAutomation X ci)"
proof -
  have start: "keeps ''WebDriver'' 30 (flagTool ''WebDriver'' 30 [''WebDriver API detected''] initialResult)"
    by (simp add: keeps_def flagTool_def initialResult_def)
  have "keeps ''WebDriver'' 30 (stepThreshold
          (stepFlag (\<not> checkUserAgentConsistency ua hs) 20 ''user agent inconsistent''
          (stepFlag (detectAbnormalLanguage nav hs) 5 ''abnormal language settings''
          (stepFlag (detectAbnormalHardwareConcurrency nav) 10 ''abnormal hardware concurrency''
          (stepFlag (detectAbnormalPluginCount nav) 15 ''abnormal browser plugin count''
          (stepFlag (detectAbnormalTimezone ci) 10 ''abnormal timezone''
          (stepFlag (detectAbnormalScreenSize X ci) 10 ''abnormal screen size''
          (stepInconsistency (detectBrowserInconsistency X ua hs nav)
          (stepTool ''Playwright'' (detectPlaywright ua nav win)
          (stepTool ''Puppeteer'' (detectPuppeteer ua nav win)
          (stepTool ''Selenium'' (detectSelenium ua nav win)
          (flagTool ''WebDriver'' 30 [''WebDriver API detected''] initialResult))))))))))))"
    for ua hs nav win
    by (intro keeps_steps start score_nonneg) simp_all
  then show ?thesis using assms
    by (simp add: detectAutomation_def runDetectors_def keeps_def capScore_def)
qed

text \<open>C10 (confirmed). For every input to the automation detector, whenever the returned
  \<open>isAutomated\<close> is true the returned \<open>detectedTools\<close> list is non-empty.\<close>

theorem automated_names_a_tool:
  "isAutomated (detectAutomation X ci) \<Longrightarrow> detectedTools (detectAutomation X ci) \<noteq> []"
  using toolsNamed_detectAutomation [of X ci] by (simp add: toolsNamed_def)

theorem automated_names_a_tool_witness:
  "isAutomated (detectAutomation stubExternals seleniumWindowClient)
   \<and> detectedTools (detectAutomation stubExternals seleniumWindowClient) \<noteq> []"
proof -
  have a: "isAutomated (detectAutomation stubExternals seleniumWindowClient)"
    by (simp add: automation_defs string_defs stub_defs seleniumWindowClient_def
        bareClientInfo_def Let_def)
  from a automated_names_a_tool [OF a] show ?thesis by simp
qed

text \<open>The score threshold alone names the fallback tool.\<close>

lemma detectedTools_steps:
  "detectedTools (stepTool tool t r) = detectedTools r @ (if detected t then [tool] else [])"
  "detectedTools (stepInconsistency t r) = detectedTools r"
  "detectedTools (stepFlag c n reason r) = detectedTools r"
  "detectedTools (stepThreshold r)
     = detectedTools r @ (if automationScore r \<ge> 50 \<and> \<not> isAutomated r
                          then [''Unknown Automation''] else [])"
  "detectedTools (capScore r) = detectedTools r"
  "detectedTools initialResult = []"
  by (simp_all add: flagTool_def addScore_def stepTool_def stepInconsistency_def
      stepFlag_def stepThreshold_def capScore_def initialResult_def)

lemma unknown_automation_fallback:
  assumes "isAutomated (detectAutomation X ci)"
    and "\<not> detectWebDriver (orDefault emptyNavigator (ci_navigator ci))"
    and "\<not> detected (detectSelenium (orEmpty (ci_userAgent ci))
           (orDefault emptyNavigator (ci_navigator ci)) (orDefault emptyWindow (ci_window ci)))"
    and "\<not> detected (detectPuppeteer (orEmpty (ci_userAgent ci))
           (orDefault emptyNavigator (ci_navigator ci)) (orDefault emptyWindow (ci_window ci)))"
    and "\<not> detected (detectPlaywright (orEmpty (ci_userAgent ci))
           (orDefault emptyNavigator (ci_navigator ci)) (orDefault emptyWindow (ci_window ci)))"
  shows "detectedTools (detectAutomation X ci) = [''Unknown Automation'']"
  using assms unfolding detectAutomation_def runDetectors_def
  by (simp add: isAutomated_steps detectedTools_steps)

text \<open>C5 (corrected). The claim: \<open>isAutomated\<close> is true if and only if the definitive
  automation-driver check fired or the total automation score is at least 50.
  Amended: \<open>isAutomated\<close> is true if and only if the WebDriver check fired, or one of the
  Selenium, Puppeteer and Playwright detectors reported a detection, or the total
  automation score is at least 50.\<close>

theorem isAutomated_iff_tool_or_threshold: "isAutomated (detectAutomation X ci) =
   (let ua = orEmpty (ci_userAgent ci);
        nav = orDefault emptyNavigator (ci_navigator ci);
        win = orDefault emptyWindow (ci_window ci)
    in detectWebDriver nav \<or> detected (detectSelenium ua nav win)
       \<or> detected (detectPuppeteer ua nav win) \<or> detected (detectPlaywright ua nav win)
       \<or> automationScore (detectAutomation X ci) \<ge> 50)"
  unfolding detectAutomation_def runDetectors_def Let_def
  by (auto simp: isAutomated_steps)

theorem isAutomated_iff_tool_or_threshold_witness:
  "isAutomated (detectAutomation stubExternals webdriverClient)
   \<and> detectWebDriver (orDefault emptyNavigator (ci_navigator webdriverClient))"
proof -
  have "detectWebDriver (orDefault emptyNavigator (ci_navigator webdriverClient))"
    by (simp add: detectWebDriver_def orDefault_def webdriverClient_def bareClientInfo_def
        emptyNavigator_def)
  then show ?thesis
    using isAutomated_iff_tool_or_threshold [of stubExternals webdriverClient]
    by (simp add: Let_def)
qed

theorem tool_marker_below_threshold_counterexample:
  "isAutomated (detectAutomation stubExternals seleniumWindowClient)
   \<and> \<not> detectWebDriver (orDefault emptyNavigator (ci_navigator seleniumWindowClient))
   \<and> automationScore (detectAutomation stubExternals seleniumWindowClient) < 50"
  by (simp add: automation_defs string_defs stub_defs seleniumWindowClient_def
        bareClientInfo_def Let_def)

subsection \<open>Session creation\<close>

lemmas snapshot_defs = collectClientInfo_def orNullS_def orNullN_def orNullP_def orFalse_def
  orNum_def getClientIp_def noSnapshot_def webdriverSnapshot_def browserRequest_def
  browserHeaders_def toolRequest_def

lemma init_response:
  "fst (init X sid ts req body sessions) =
     (let a = detectAutomation X (collectClientInfo X req body);
          reject = (isAutomated a \<and> automationScore a > 80)
      in \<lparr> ir_sessionId = sid, ir_timestamp = ts,
           ir_status = (if reject then Rejected else Pending),
           ir_rejectionReason =
             (if reject then Some (''automation tool detected: '' @ join '', '' (detectedTools a))
              else None) \<rparr>)"
  by (simp add: init_def newSession_def Let_def orNullS_def)

lemma init_stored_status:
  "statusOf (snd (init X sid ts req body sessions)) sid
     = Some (ir_status (fst (init X sid ts req body sessions)))"
  by (simp add: init_def newSession_def Let_def statusOf_def)

lemma tools_on_toolRequest:
  "detectAutomation stubExternals (collectClientInfo stubExternals toolRequest noSnapshot)
     = \<lparr> isAutomated = True, automationScore = 85,
         detectedTools = [''Selenium'', ''Puppeteer'', ''Playwright''],
         reasons = [''user agent contains Selenium keyword'',
           ''user agent contains HeadlessChrome'', ''user agent contains Playwright''] \<rparr>"
  by (simp add: automation_defs string_defs stub_defs snapshot_defs)

lemma nothing_on_webdriverSnapshot:
  "detectAutomation stubExternals (collectClientInfo stubExternals browserRequest webdriverSnapshot)
     = \<lparr> isAutomated = False, automationScore = 0, detectedTools = [], reasons = [] \<rparr>"
  by (simp add: automation_defs string_defs stub_defs snapshot_defs)

text \<open>C2 (corrected). The claim: for every snapshot whose client-reported webdriver flag is
  true, session creation returns status rejected with a reason that names a detected tool.
  Amended: for every client information whose navigator object reports \<open>webdriver\<close>, the
  automation detector sets \<open>isAutomated\<close>, lists WebDriver among the detected tools and
  scores at least 30. Session creation returns status rejected exactly when the detector,
  run on the client information the route collects, reports \<open>isAutomated\<close> with a score
  above 80; the reason then names the detected tools, of which there is at least one;
  otherwise the status is pending and there is no reason. The stored session has the
  status the response reports.\<close>

theorem createSession_rejects_above_80:
  "(ci_navigator ci = Obj n \<and> nav_webdriver n \<longrightarrow>
      isAutomated (detectAutomation X ci)
      \<and> ''WebDriver'' \<in> set (detectedTools (detectAutomation X ci))
      \<and> 30 \<le> automationScore (detectAutomation X ci))
   \<and> (let a = detectAutomation X (collectClientInfo X req body);
           response = fst (init X sid ts req body sessions)
       in (ir_status response = Rejected) = (isAutomated a \<and> automationScore a > 80)
          \<and> (ir_status response = Rejected \<longrightarrow>
                detectedTools a \<noteq> []
                \<and> ir_rejectionReason response
                    = Some (''automation tool detected: '' @ join '', '' (detectedTools a)))
          \<and> (ir_status response \<noteq> Rejected \<longrightarrow>
                ir_status response = Pending \<and> ir_rejectionReason response = None)
          \<and> statusOf (snd (init X sid ts req body sessions)) sid = Some (ir_status response))"
proof -
  have first: "isAutomated (detectAutomation X ci)
      \<and> ''WebDriver'' \<in> set (detectedTools (detectAutomation X ci))
      \<and> 30 \<le> automationScore (detectAutomation X ci)"
    if "ci_navigator ci = Obj n" "nav_webdriver n"
    using that by (intro webdriver_kept) (simp add: orDefault_def detectWebDriver_def)
  have named: "detectedTools a \<noteq> []" if "isAutomated a"
      and "a = detectAutomation X (collectClientInfo X req body)" for a
    using that toolsNamed_detectAutomation [of X "collectClientInfo X req body"]
    by (simp add: toolsNamed_def)
  show ?thesis
    using first named
    by (auto simp: init_response init_stored_status Let_def)
qed

theorem createSession_rejects_above_80_witness:
  "isAutomated (detectAutomation stubExternals webdriverClient)
   \<and> ''WebDriver'' \<in> set (detectedTools (detectAutomation stubExternals webdriverClient))
   \<and> ir_status (fst (init stubExternals ''s1'' 1000 toolRequest noSnapshot Map.empty)) = Rejected
   \<and> ir_rejectionReason (fst (init stubExternals ''s1'' 1000 toolRequest noSnapshot Map.empty))
        = Some ''automation tool detected: Selenium, Puppeteer, Playwright''"
  using createSession_rejects_above_80 [of webdriverClient "emptyNavigator\<lparr> nav_webdriver := True \<rparr>" stubExternals
      toolRequest noSnapshot "''s1''" 1000 Map.empty]
  by (simp add: tools_on_toolRequest webdriverClient_def bareClientInfo_def Let_def)

theorem webdriver_flag_stays_pending_counterexample:
  "sn_webdriver webdriverSnapshot = Some True
   \<and> ir_status (fst (init stubExternals ''s1'' 1000 browserRequest webdriverSnapshot Map.empty))
       = Pending"
proof -
  have "sn_webdriver webdriverSnapshot = Some True"
    by (simp add: webdriverSnapshot_def noSnapshot_def)
  then show ?thesis
    by (simp add: init_response nothing_on_webdriverSnapshot Let_def)
qed

lemmas fingerprint_defs = analyzeFingerprint_def analyzeComponents_def canvasStep_def
  webglStep_def audioStep_def fontsStep_def pluginsStep_def screenStep_def hardwareStep_def
  timezoneStep_def touchStep_def finishFingerprint_def extractFingerprintComponents_def
  analyzeCanvasFingerprint_def analyzeWebGLFingerprint_def analyzeAudioFingerprint_def
  analyzeFonts_def analyzePlugins_def pluginArray_def analyzeScreenInfo_def
  analyzeHardwareInfo_def analyzeTimezone_def getExpectedTimezoneOffset_def timezoneOffsets_def
  analyzeTouchSupport_def applyPart_def missingPart_def clamp100_def noPart_def award_def
  anomaly_def knownAutomatedCanvasFingerprints_def automatedWebGLVendors_def
  automatedWebGLRenderers_def knownAutomatedAudioFingerprints_def commonFonts_def geN_def ltN_def

lemmas network_defs = analyzeNetwork_def analyzePublic_def proxyStep_def datacenterStep_def
  vpnStep_def consistencyStep_def tlsStep_def finishNetwork_def isPrivateIP_def geoChecks_def checkIpTimezoneMatch_def
  getExpectedTimezones_def countryTimezones_def checkIpLanguageMatch_def
  getExpectedLanguages_def countryLanguages_def checkProxyHeaders_def proxyHeaders_def
  checkDatacenterIP_def dataCenterRanges_def checkVPN_def vpnRanges_def
  checkHeaderConsistency_def claimsBrowser_def checkTLSFingerprint_def insecureCiphers_def
  networkStart_def penalize_def reward_def clamp100_def

lemma fp_full:
  "fp_score (analyzeFingerprint stubExternals
      (Some (collectClientInfo stubExternals browserRequest fullSnapshot))) = 100
   \<and> fp_anomalies (analyzeFingerprint stubExternals
      (Some (collectClientInfo stubExternals browserRequest fullSnapshot)))
       = [''missing font information'']"
  by (simp add: fingerprint_defs string_defs stub_defs snapshot_defs fullSnapshot_def Let_def)

lemma nw_full:
  "nw_score (analyzeNetwork stubExternals
      (collectClientInfo stubExternals browserRequest fullSnapshot) browserRequest) = 100
   \<and> nw_reasons (analyzeNetwork stubExternals
      (collectClientInfo stubExternals browserRequest fullSnapshot) browserRequest) = []"
  by (simp add: network_defs string_defs stub_defs snapshot_defs fullSnapshot_def Let_def)

lemma auto_full:
  "detectAutomation stubExternals (collectClientInfo stubExternals browserRequest fullSnapshot)
     = \<lparr> isAutomated = False, automationScore = 0, detectedTools = [], reasons = [] \<rparr>"
  by (simp add: automation_defs string_defs stub_defs snapshot_defs fullSnapshot_def)

subsection \<open>The event route\<close>

lemma recordEvent_not_found:
  "sessions sid = None \<Longrightarrow> recordEvent X sid now ty d sessions = (EventNotFound, sessions)"
  by (simp add: recordEvent_def)

lemma recordEvent_rejected:
  "sessions sid = Some s \<Longrightarrow> s_status s = Rejected \<Longrightarrow>
     recordEvent X sid now ty d sessions
       = (EventRejected (orNullS (s_rejectionReason s)), sessions)"
  by (simp add: recordEvent_def)

text \<open>Every session that is not rejected gets the event appended, whatever the response.\<close>

lemma recordEvent_appends:
  assumes "sessions sid = Some s" "s_status s \<noteq> Rejected"
  shows "map_option s_events (snd (recordEvent X sid now ty d sessions) sid)
           = Some (s_events s @ [\<lparr> ev_type = ty, ev_data = d, ev_timestamp = now \<rparr>])"
  using assms
  by (simp add: recordEvent_def Let_def split: sum.splits)

lemma recordEvent_below_threshold:
  assumes "sessions sid = Some s" "s_status s \<noteq> Rejected" "length (s_events s) < 9"
  shows "recordEvent X sid now ty d sessions
           = (EventAccepted (Suc (length (s_events s))),
              sessions(sid \<mapsto> s\<lparr> s_events :=
                 s_events s @ [\<lparr> ev_type = ty, ev_data = d, ev_timestamp = now \<rparr>] \<rparr>))"
  using assms by (simp add: recordEvent_def Let_def)

lemma analyzeBehavior_few_moves:
  assumes "events \<noteq> []" "length (filter isMouseMove events) < 5"
  shows "analyzeBehavior X now events
           = Inr \<lparr> bh_isHuman = False, bh_score = 0,
                   bh_reasons = [''too few mouse move events''] \<rparr>"
  using assms by (simp add: analyzeBehavior_def Let_def)

text \<open>The event that brings the log to ten entries triggers the behavior analysis, and a
  log with fewer than five pointer moves is rejected there, whatever the status was.\<close>

lemma recordEvent_triggers_rejection:
  assumes "sessions sid = Some s" "s_status s \<noteq> Rejected" "an_behavior (s_analysis s) = None"
    and "9 \<le> length (s_events s)"
    and "length (filter isMouseMove
           (s_events s @ [\<lparr> ev_type = ty, ev_data = d, ev_timestamp = now \<rparr>])) < 5"
  shows "statusOf (snd (recordEvent X sid now ty d sessions)) sid = Some Rejected"
proof -
  let ?es = "s_events s @ [\<lparr> ev_type = ty, ev_data = d, ev_timestamp = now \<rparr>]"
  have "analyzeBehavior X now ?es
          = Inr \<lparr> bh_isHuman = False, bh_score = 0,
                  bh_reasons = [''too few mouse move events''] \<rparr>"
    using assms(5) by (intro analyzeBehavior_few_moves) simp_all
  then show ?thesis
    using assms(1-4) by (simp add: recordEvent_def Let_def statusOf_def)
qed

subsection \<open>The verify route\<close>

lemma verify_not_found:
  "sessions sid = None \<Longrightarrow> verify X sid now req sessions = (VerifyNotFound, sessions)"
  by (simp add: verify_def)

lemma verify_cached:
  "sessions sid = Some s \<Longrightarrow> s_status s \<noteq> Pending \<Longrightarrow>
     verify X sid now req sessions = (VerifyCached (cachedVerdict s), sessions)"
  by (simp add: verify_def)

lemma verify_without_events:
  assumes "sessions sid = Some s" "s_status s = Pending" "s_events s = []"
  shows "verify X sid now req sessions
           = (VerifyResult (verifySession now s req),
              sessions(sid \<mapsto> conclude now (verifySession now s req) s))"
  using assms by (simp add: verify_def Let_def)

lemma conclude_status:
  "s_status (conclude now r s) = (if vr_isHuman r then Verified else Rejected)"
  "s_status (conclude now r s) \<noteq> Pending"
  "s_verificationScore (conclude now r s) = Some (vr_score r)"
  "s_analysis (conclude now r s) = s_analysis s"
  "s_rejectionReason (conclude now r s)
     = (if vr_isHuman r then s_rejectionReason s else Some (join '', '' (vr_reasons r)))"
  by (simp_all add: conclude_def)

subsection \<open>The sample session\<close>

lemmas aggregator_defs = signals_def automationStep_def behaviorStep_def fingerprintStep_def
  networkStep_def ageStep_def eventCountStep_def deviceInfoStep_def userAgentStep_def
  headerStep_def patternStep_def adjust_def emptyTally_def firstFew_def finalScore_def

lemma sample_session:
  "s_status sampleSession = Pending"
  "s_events sampleSession = []"
  "s_createdAt sampleSession = 1000"
  "s_rejectionReason sampleSession = None"
  "an_behavior (s_analysis sampleSession) = None"
  "an_automation (s_analysis sampleSession)
     = Some \<lparr> isAutomated = False, automationScore = 0, detectedTools = [], reasons = [] \<rparr>"
  "an_fingerprint (s_analysis sampleSession)
     = Some (analyzeFingerprint stubExternals
         (Some (collectClientInfo stubExternals browserRequest fullSnapshot)))"
  "an_network (s_analysis sampleSession)
     = Some (analyzeNetwork stubExternals
         (collectClientInfo stubExternals browserRequest fullSnapshot) browserRequest)"
  by (simp_all add: sampleSession_def newSession_def Let_def auto_full)

lemma sample_client:
  "truthy (ci_screenResolution (s_clientInfo sampleSession))"
  "truthy (ci_timezone (s_clientInfo sampleSession))"
  "truthy (ci_userAgent (s_clientInfo sampleSession))"
  "ci_parsedUserAgent (s_clientInfo sampleSession) = Some \<lparr> pua_browser = True, pua_os = True \<rparr>"
  by (simp_all add: sampleSession_def newSession_def Let_def snapshot_defs fullSnapshot_def
      string_defs stub_defs)

lemma sessionWith_fields:
  "s_status (sessionWith es) = Pending"
  "s_events (sessionWith es) = es"
  "s_createdAt (sessionWith es) = 1000"
  "s_analysis (sessionWith es) = s_analysis sampleSession"
  "s_clientInfo (sessionWith es) = s_clientInfo sampleSession"
  by (simp_all add: sessionWith_def sample_session)

lemma browser_headers_clean: "checkSuspiciousHeaders (req_headers browserRequest) = []"
  by (simp add: checkSuspiciousHeaders_def automationHeaders_def browserRequest_def
      browserHeaders_def string_defs)

lemma no_pattern_without_events: "s_events s = [] \<Longrightarrow> \<not> rp_suspicious (analyzeRequestPattern s)"
  by (simp add: analyzeRequestPattern_def Let_def)

lemma sample_tally:
  "t_score (patternStep sampleSession (signals 6000 sampleSession browserRequest)) = 20"
  "t_reasons (patternStep sampleSession (signals 6000 sampleSession browserRequest))
     = [''too few user interaction events'', ''fingerprint anomalies: missing font information'',
        ''no user interaction events'']"
  by (simp_all add: aggregator_defs sample_session sample_client fp_full nw_full
      browser_headers_clean no_pattern_without_events)

lemma sample_verdict:
  "vr_isHuman (verifySession 6000 sampleSession browserRequest)"
  "vr_score (verifySession 6000 sampleSession browserRequest) = 70"
  "vr_reasons (verifySession 6000 sampleSession browserRequest)
     = [''too few user interaction events'', ''fingerprint anomalies: missing font information'',
        ''no user interaction events'']"
  by (simp_all add: verifySession_def Let_def sample_tally finalScore_def)

text \<open>The session table after the sample session has been created and evaluated.\<close>

lemma after_createAndEvaluate:
  "run stubExternals createAndEvaluate Map.empty
     = [''s1'' \<mapsto> conclude 6000 (verifySession 6000 sampleSession browserRequest) sampleSession]"
proof -
  have "snd (init stubExternals ''s1'' 1000 browserRequest fullSnapshot Map.empty)
          = [''s1'' \<mapsto> sampleSession]"
    by (simp add: init_def Let_def sampleSession_def)
  then show ?thesis
    by (simp add: createAndEvaluate_def verify_without_events sample_session)
qed

lemma evaluated_session:
  "s_status (conclude 6000 (verifySession 6000 sampleSession browserRequest) sampleSession)
     = Verified"
  "s_events (conclude 6000 (verifySession 6000 sampleSession browserRequest) sampleSession) = []"
  "an_behavior (s_analysis
     (conclude 6000 (verifySession 6000 sampleSession browserRequest) sampleSession)) = None"
  by (simp_all add: conclude_def sample_verdict sample_session)

subsection \<open>Runs of operations\<close>

lemma run_append: "run X (ops @ ops') sessions = run X ops' (run X ops sessions)"
  by (induction ops arbitrary: sessions) simp_all

lemma keypresses_accumulate:
  assumes "sessions ''s1'' = Some s" "s_status s \<noteq> Rejected"
    and "length (s_events s) + length ts \<le> 9"
  shows "run X (map keypress ts) sessions
           = sessions(''s1'' \<mapsto> s\<lparr> s_events := s_events s @ map (bareEvent ''keypress'') ts \<rparr>)"
  using assms
proof (induction ts arbitrary: sessions s)
  case Nil
  then show ?case by (simp add: fun_upd_idem)
next
  case (Cons t ts)
  let ?s' = "s\<lparr> s_events := s_events s @ [bareEvent ''keypress'' t] \<rparr>"
  have step: "apply_op X (keypress t) sessions = sessions(''s1'' \<mapsto> ?s')"
    using Cons.prems
    by (simp add: keypress_def recordEvent_below_threshold bareEvent_def)
  have "run X (map keypress ts) (sessions(''s1'' \<mapsto> ?s'))
          = (sessions(''s1'' \<mapsto> ?s'))(''s1'' \<mapsto>
              ?s'\<lparr> s_events := s_events ?s' @ map (bareEvent ''keypress'') ts \<rparr>)"
    using Cons.prems by (intro Cons.IH) simp_all
  then show ?case by (simp add: step)
qed

text \<open>C1 (code defect). The claim: a session's status only ever moves from pending to
  verified or to rejected, and a verified or rejected session never changes status again.
  The run below creates a session, evaluates it (verified, with no event recorded and
  hence no behavior analysis cached) and then records ten key presses: the event route
  turns away only rejected sessions, so the tenth event triggers the behavior analysis and
  the verified session becomes rejected.\<close>

theorem verified_session_becomes_rejected:
  "statusOf (run stubExternals [CreateSession ''s1'' 1000 browserRequest fullSnapshot] Map.empty)
     ''s1'' = Some Pending
   \<and> statusOf (run stubExternals createAndEvaluate Map.empty) ''s1'' = Some Verified
   \<and> statusOf (run stubExternals (createAndEvaluate @ tenKeypresses) Map.empty) ''s1''
       = Some Rejected"
proof -
  let ?v = "conclude 6000 (verifySession 6000 sampleSession browserRequest) sampleSession"
  let ?nine = "map (bareEvent ''keypress'') [7000, 7100, 7200, 7300, 7400, 7500, 7600, 7700, 7800]"
  have created: "statusOf (run stubExternals
      [CreateSession ''s1'' 1000 browserRequest fullSnapshot] Map.empty) ''s1'' = Some Pending"
    using sample_session(1)
    by (simp add: init_def Let_def statusOf_def sampleSession_def)
  have evaluated: "statusOf (run stubExternals createAndEvaluate Map.empty) ''s1'' = Some Verified"
    by (simp add: after_createAndEvaluate statusOf_def evaluated_session)
  have nine: "run stubExternals
      (map keypress [7000, 7100, 7200, 7300, 7400, 7500, 7600, 7700, 7800])
      [''s1'' \<mapsto> ?v] = [''s1'' \<mapsto> ?v\<lparr> s_events := ?nine \<rparr>]"
    using keypresses_accumulate [of "[''s1'' \<mapsto> ?v]" ?v
        "[7000, 7100, 7200, 7300, 7400, 7500, 7600, 7700, 7800]" stubExternals]
    by (simp add: evaluated_session)
  have tenth: "statusOf (snd (recordEvent stubExternals ''s1'' 7900 ''keypress'' None
      [''s1'' \<mapsto> ?v\<lparr> s_events := ?nine \<rparr>])) ''s1'' = Some Rejected"
    by (rule recordEvent_triggers_rejection [where s = "?v\<lparr> s_events := ?nine \<rparr>"])
       (simp_all add: evaluated_session bareEvent_def isMouseMove_def)
  have ten: "tenKeypresses
      = map keypress [7000, 7100, 7200, 7300, 7400, 7500, 7600, 7700, 7800] @ [keypress 7900]"
    by (simp add: tenKeypresses_def)
  have "run stubExternals (createAndEvaluate @ tenKeypresses) Map.empty
          = run stubExternals [keypress 7900]
              (run stubExternals
                 (map keypress [7000, 7100, 7200, 7300, 7400, 7500, 7600, 7700, 7800])
                 (run stubExternals createAndEvaluate Map.empty))"
    unfolding ten by (simp only: run_append)
  also have "\<dots> = run stubExternals [keypress 7900] [''s1'' \<mapsto> ?v\<lparr> s_events := ?nine \<rparr>]"
    by (simp only: after_createAndEvaluate nine)
  also have "\<dots> = snd (recordEvent stubExternals ''s1'' 7900 ''keypress'' None
      [''s1'' \<mapsto> ?v\<lparr> s_events := ?nine \<rparr>])"
    by (simp add: keypress_def)
  finally have "statusOf (run stubExternals (createAndEvaluate @ tenKeypresses) Map.empty) ''s1''
      = Some Rejected"
    by (simp only: tenth)
  with created evaluated show ?thesis by blast
qed

text \<open>C3 (corrected). The claim: every Evaluate call on a terminal session returns a result
  byte-identical to the one returned by the call that made the session terminal.
  Amended: every Evaluate call on a terminal session leaves the session table unchanged and
  returns the cached summary of the session, so repeated calls on a terminal session agree
  with each other. The summary following the evaluation that made the session terminal
  agrees with that evaluation's result on \<open>isHuman\<close> and \<open>score\<close>; its reasons are the
  result's reasons joined into one string when the verdict was not human, and the session's
  earlier reason (none for a session the routes left pending) when it was human.\<close>

theorem evaluate_terminal_returns_cached_summary:
  "(sessions sid = Some s \<and> s_status s \<noteq> Pending \<longrightarrow>
      verify X sid now req sessions = (VerifyCached (cachedVerdict s), sessions))
   \<and> (sessions sid = Some s \<and> s_status s = Pending
        \<and> verify X sid now req sessions = (VerifyResult r, sessions') \<longrightarrow>
      (\<exists>c. verify X sid now' req' sessions' = (VerifyCached c, sessions')
          \<and> cr_isHuman c = vr_isHuman r \<and> cr_score c = vr_score r
          \<and> cr_reasons c =
               (if vr_isHuman r then cr_reasons (cachedVerdict s)
                else if join '', '' (vr_reasons r) = [] then []
                else [join '', '' (vr_reasons r)])))"
proof (intro conjI impI)
  assume "sessions sid = Some s \<and> s_status s \<noteq> Pending"
  then show "verify X sid now req sessions = (VerifyCached (cachedVerdict s), sessions)"
    by (simp add: verify_cached)
next
  assume a: "sessions sid = Some s \<and> s_status s = Pending
        \<and> verify X sid now req sessions = (VerifyResult r, sessions')"
  then obtain s1 where s1: "sessions' = sessions(sid \<mapsto> conclude now r s1)"
      and same: "s_rejectionReason s1 = s_rejectionReason s"
    by (auto simp: verify_def Let_def split: if_splits sum.splits)
  have "verify X sid now' req' sessions'
          = (VerifyCached (cachedVerdict (conclude now r s1)), sessions')"
    by (rule verify_cached) (simp_all add: s1 conclude_status)
  moreover have "cr_isHuman (cachedVerdict (conclude now r s1)) = vr_isHuman r"
    by (simp add: cachedVerdict_def conclude_status)
  moreover have "cr_score (cachedVerdict (conclude now r s1)) = vr_score r"
    by (simp add: cachedVerdict_def conclude_status orNum_def)
  moreover have "cr_reasons (cachedVerdict (conclude now r s1)) =
      (if vr_isHuman r then cr_reasons (cachedVerdict s)
       else if join '', '' (vr_reasons r) = [] then [] else [join '', '' (vr_reasons r)])"
    by (simp add: cachedVerdict_def conclude_status orNullS_def same)
  ultimately show "\<exists>c. verify X sid now' req' sessions' = (VerifyCached c, sessions')
          \<and> cr_isHuman c = vr_isHuman r \<and> cr_score c = vr_score r
          \<and> cr_reasons c =
               (if vr_isHuman r then cr_reasons (cachedVerdict s)
                else if join '', '' (vr_reasons r) = [] then []
                else [join '', '' (vr_reasons r)])"
    by blast
qed

theorem evaluate_terminal_returns_cached_summary_witness:
  "verify stubExternals ''s1'' 7000 browserRequest (run stubExternals createAndEvaluate Map.empty)
     = (VerifyCached \<lparr> cr_isHuman = True, cr_score = 70, cr_reasons = [],
          cr_automationDetected = False, cr_detectedTools = [] \<rparr>,
        run stubExternals createAndEvaluate Map.empty)"
  using evaluate_terminal_returns_cached_summary
    [of "run stubExternals createAndEvaluate Map.empty" "''s1''"
        "conclude 6000 (verifySession 6000 sampleSession browserRequest) sampleSession"
        stubExternals 7000 browserRequest]
  by (simp add: after_createAndEvaluate evaluated_session cachedVerdict_def conclude_status
      sample_verdict sample_session orNum_def orNullS_def)

theorem evaluate_not_byte_identical_counterexample:
  "map_option vr_reasons (freshResult (fst (verify stubExternals ''s1'' 6000 browserRequest
       [''s1'' \<mapsto> sampleSession])))
     = Some [''too few user interaction events'',
             ''fingerprint anomalies: missing font information'', ''no user interaction events'']
   \<and> fst (verify stubExternals ''s1'' 7000 browserRequest
         (snd (verify stubExternals ''s1'' 6000 browserRequest [''s1'' \<mapsto> sampleSession])))
     = VerifyCached \<lparr> cr_isHuman = True, cr_score = 70, cr_reasons = [],
         cr_automationDetected = False, cr_detectedTools = [] \<rparr>"
  by (simp add: verify_without_events verify_cached sample_session freshResult_def
      sample_verdict conclude_status cachedVerdict_def orNum_def orNullS_def)

text \<open>C4 (corrected). The claim: for every terminal session (verified or rejected) the
  event route does not append the event; events are appended only while the session is
  pending, and the terminal case is reported as a rejected outcome carrying the cached
  reason. Amended: for every rejected session the event route leaves the session table
  unchanged and reports the rejected outcome with the cached reason, distinct from the
  not-found outcome of an unknown session; for every pending session the submitted event
  is appended at the end of the log.\<close>

theorem recordEvent_rejected_or_pending:
  "(sessions sid = None \<longrightarrow>
      recordEvent X sid now ty d sessions = (EventNotFound, sessions))
   \<and> (sessions sid = Some s \<and> s_status s = Rejected \<longrightarrow>
      recordEvent X sid now ty d sessions
        = (EventRejected (orNullS (s_rejectionReason s)), sessions))
   \<and> (sessions sid = Some s \<and> s_status s = Pending \<longrightarrow>
      map_option s_events (snd (recordEvent X sid now ty d sessions) sid)
        = Some (s_events s @ [\<lparr> ev_type = ty, ev_data = d, ev_timestamp = now \<rparr>]))"
  by (simp add: recordEvent_not_found recordEvent_rejected recordEvent_appends)

lemma rejected_sample:
  "s_status (newSession stubExternals ''s2'' 1000 toolRequest noSnapshot) = Rejected"
  "s_rejectionReason (newSession stubExternals ''s2'' 1000 toolRequest noSnapshot)
     = Some ''automation tool detected: Selenium, Puppeteer, Playwright''"
  by (simp_all add: newSession_def Let_def tools_on_toolRequest)

theorem recordEvent_rejected_or_pending_witness:
  "recordEvent stubExternals ''s2'' 2000 ''click'' None
      [''s2'' \<mapsto> newSession stubExternals ''s2'' 1000 toolRequest noSnapshot]
     = (EventRejected (Some ''automation tool detected: Selenium, Puppeteer, Playwright''),
        [''s2'' \<mapsto> newSession stubExternals ''s2'' 1000 toolRequest noSnapshot])
   \<and> map_option s_events
        (snd (recordEvent stubExternals ''s1'' 2000 ''click'' None [''s1'' \<mapsto> sampleSession])
           ''s1'')
       = Some [bareEvent ''click'' 2000]"
  using recordEvent_rejected_or_pending
      [of "[''s2'' \<mapsto> newSession stubExternals ''s2'' 1000 toolRequest noSnapshot]" "''s2''"
          stubExternals 2000 "''click''" None
          "newSession stubExternals ''s2'' 1000 toolRequest noSnapshot"]
    recordEvent_rejected_or_pending
      [of "[''s1'' \<mapsto> sampleSession]" "''s1''" stubExternals 2000 "''click''" None
          sampleSession]
  by (simp add: rejected_sample sample_session orNullS_def bareEvent_def)

theorem verified_session_accepts_event_counterexample:
  "statusOf (run stubExternals createAndEvaluate Map.empty) ''s1'' = Some Verified
   \<and> fst (recordEvent stubExternals ''s1'' 7000 ''keypress'' None
           (run stubExternals createAndEvaluate Map.empty)) = EventAccepted 1
   \<and> map_option s_events
        (snd (recordEvent stubExternals ''s1'' 7000 ''keypress'' None
           (run stubExternals createAndEvaluate Map.empty)) ''s1'')
       = Some [bareEvent ''keypress'' 7000]"
  by (simp add: after_createAndEvaluate statusOf_def evaluated_session
      recordEvent_below_threshold bareEvent_def)

subsection \<open>The behavior analyzer on steady pointer moves\<close>

lemma points_of_coords:
  "map coordOf events = map Some cs \<Longrightarrow> points now events = zip cs (map (eventTime now) events)"
proof (induction events arbitrary: cs)
  case Nil
  then show ?case by simp
next
  case (Cons e es)
  then obtain c cs' where "cs = c # cs'" "coordOf e = Some c" "map coordOf es = map Some cs'"
    by (cases cs) auto
  with Cons.IH show ?case by simp
qed

lemma stdDev_constant:
  assumes "\<forall>x \<in> set xs. x = c"
  shows "stdDev xs = 0"
proof (cases "xs = []")
  case True
  then show ?thesis by (simp add: stdDev_def)
next
  case False
  have xs: "xs = replicate (length xs) c"
    using assms by (simp add: replicate_length_same)
  have "sum_list xs = real (length xs) * c"
    by (subst xs) (simp add: sum_list_replicate)
  then have m: "mean xs = c"
    using False by (simp add: mean_def)
  have "sum_list (map (\<lambda>x. (x - mean xs)\<^sup>2) xs) = 0"
    using assms by (simp add: m sum_list_0 cong: map_cong)
  then show ?thesis by (simp add: stdDev_def)
qed

lemma mean_constant:
  assumes "\<forall>x \<in> set xs. x = c" "xs \<noteq> []"
  shows "mean xs = c"
proof -
  have xs: "xs = replicate (length xs) c"
    using assms by (simp add: replicate_length_same)
  have "sum_list xs = real (length xs) * c"
    by (subst xs) (simp add: sum_list_replicate)
  then show ?thesis
    using assms(2) by (simp add: mean_def)
qed

lemma ten_elements:
  assumes "length xs = 10"
  obtains a b c d e f g h i j where "xs = [a, b, c, d, e, f, g, h, i, j]"
proof -
  from assms have "\<exists>a b c d e f g h i j. xs = [a, b, c, d, e, f, g, h, i, j]"
    by (auto simp: length_Suc_conv eval_nat_numeral)
  then show ?thesis using that by blast
qed

lemma upt_ten: "[0..<10] = [0, 1, 2, 3, 4, 5, 6, 7, 8, 9 :: nat]"
  by code_simp

lemma steady_speeds:
  "set (speedsOf (zip (map (\<lambda>i. (x0 + real i * dx, y0 + real i * dy)) [0..<10])
                      (map (\<lambda>i. t0 + 100 * real i) [0..<10])))
     \<subseteq> {sqrt (dx * dx + dy * dy) / (1 / 10)}"
  by (simp add: upt_ten Let_def algebra_simps)

lemma steady_intervals:
  "diffs (map (\<lambda>i. t0 + 100 * real i) [0..<10]) = [100, 100, 100, 100, 100, 100, 100, 100, 100]"
  by (simp add: upt_ten)


text \<open>C9 (confirmed). For every session whose events are exactly ten pointer-move events at a
  constant 100 ms cadence and constant velocity along a straight line, the trajectory
  sub-check and the timing sub-check of the behavior analyzer both report non-natural,
  and neither adds its points to the behavior score. The events are given by what the
  analyzer reads: ten events of type \<open>mousemove\<close> whose coordinates advance by \<open>(dx, dy)\<close>
  per event from \<open>(x0, y0)\<close> and whose timestamps advance by 100 from \<open>t0\<close>.\<close>

theorem steady_pointer_moves_not_natural:
  assumes types: "map ev_type events = replicate 10 ''mousemove''"
    and coords: "map coordOf events
                   = map (\<lambda>i. Some (x0 + real i * dx, y0 + real i * dy)) [0..<10]"
    and times: "map (eventTime now) events = map (\<lambda>i. t0 + 100 * real i) [0..<10]"
  shows "\<not> tj_isNatural (analyzeMouseTrajectory X now events)
         \<and> \<not> ti_isNatural (analyzeEventTimeIntervals now events)
         \<and> analyzeBehavior X now events
             = Inr \<lparr> bh_isHuman = False, bh_score = 0,
                     bh_reasons = [''mouse trajectory is not natural'',
                                   ''click pattern is not natural'',
                                   ''event time intervals are not natural''] \<rparr>"
proof -
  have len: "length events = 10"
    using arg_cong [OF types, of length] by simp
  have "ev_type e = ''mousemove''" if "e \<in> set events" for e
  proof -
    from that have "ev_type e \<in> set (map ev_type events)" by simp
    then show ?thesis by (simp add: types)
  qed
  then have moves: "filter isMouseMove events = events"
    and clicks: "filter (\<lambda>e. ev_type e = ''click'') events = []"
    and keys: "filter (\<lambda>e. ev_type e = ''keypress'') events = []"
    by (simp_all add: isMouseMove_def filter_empty_conv)
  have "map coordOf events
          = map Some (map (\<lambda>i. (x0 + real i * dx, y0 + real i * dy)) [0..<10])"
    by (simp add: coords)
  then have ps: "points now events
          = zip (map (\<lambda>i. (x0 + real i * dx, y0 + real i * dy)) [0..<10])
                (map (\<lambda>i. t0 + 100 * real i) [0..<10])"
    by (simp only: points_of_coords times)
  have "stdDev (speedsOf (points now events)) = 0"
    using steady_speeds [of x0 dx y0 dy t0]
    by (intro stdDev_constant [where c = "sqrt (dx * dx + dy * dy) / (1 / 10)"])
       (auto simp only: ps)
  then have trajectory: "\<not> tj_isNatural (analyzeMouseTrajectory X now events)"
    by (simp add: analyzeMouseTrajectory_def unnaturalTrajectory_def Let_def)
  have intervals: "diffs (map (eventTime now) events)
          = [100, 100, 100, 100, 100, 100, 100, 100, 100]"
    by (simp only: times steady_intervals)
  have "stdDev [100, 100, 100, 100, 100, 100, 100, 100, 100] = 0"
    by (rule stdDev_constant [where c = 100]) simp
  moreover have "mean [100, 100, 100, 100, 100, 100, 100, 100, 100] = 100"
    by (simp add: mean_def)
  ultimately have "cvBelow (diffs (map (eventTime now) events)) 0.1"
    by (simp add: cvBelow_def intervals)
  then have timing: "\<not> ti_isNatural (analyzeEventTimeIntervals now events)"
    by (simp add: analyzeEventTimeIntervals_def Let_def)
  have "events \<noteq> []" using len by auto
  then have "analyzeBehavior X now events
      = Inr \<lparr> bh_isHuman = False, bh_score = 0,
              bh_reasons = [''mouse trajectory is not natural'', ''click pattern is not natural'',
                            ''event time intervals are not natural''] \<rparr>"
    using trajectory timing
    by (simp add: analyzeBehavior_def Let_def moves clicks keys len analyzeClickPattern_def
        credit_def)
  with trajectory timing show ?thesis by simp
qed

lemma ten_copies: "replicate 10 x = [x, x, x, x, x, x, x, x, x, x]"
  by (simp add: eval_nat_numeral)

lemma steadyMoves_fields:
  "map ev_type (steadyMoves x0 y0 dx dy t0) = replicate 10 ''mousemove''"
  "map coordOf (steadyMoves x0 y0 dx dy t0)
     = map (\<lambda>i. Some (x0 + real i * dx, y0 + real i * dy)) [0..<10]"
  by (simp_all add: steadyMoves_def upt_ten coordOf_def mouseEvent_def ten_copies)

lemma steadyMoves_times:
  "0 < t0 \<Longrightarrow> map (eventTime now) (steadyMoves x0 y0 dx dy t0)
     = map (\<lambda>i. t0 + 100 * real i) [0..<10]"
  by (simp add: steadyMoves_def upt_ten eventTime_def orNum_def mouseEvent_def)

theorem steady_pointer_moves_not_natural_witness:
  "\<not> tj_isNatural (analyzeMouseTrajectory stubExternals 3000 (steadyMoves 10 20 3 4 1000))
   \<and> \<not> ti_isNatural (analyzeEventTimeIntervals 3000 (steadyMoves 10 20 3 4 1000))
   \<and> analyzeBehavior stubExternals 3000 (steadyMoves 10 20 3 4 1000)
       = Inr \<lparr> bh_isHuman = False, bh_score = 0,
               bh_reasons = [''mouse trajectory is not natural'', ''click pattern is not natural'',
                             ''event time intervals are not natural''] \<rparr>"
  using steady_pointer_moves_not_natural
    [of "steadyMoves 10 20 3 4 1000" 10 3 20 4 3000 1000 stubExternals]
  by (simp add: steadyMoves_fields steadyMoves_times)

subsection \<open>The request pattern check\<close>

lemma patternStep_effect:
  "t_score (patternStep s t)
     = (if rp_suspicious (analyzeRequestPattern s) then t_score t - 20 else t_score t)"
  "t_reasons (patternStep s t)
     = (if rp_suspicious (analyzeRequestPattern s)
        then t_reasons t @ [''abnormal request pattern: '' @ rp_reason (analyzeRequestPattern s)]
        else t_reasons t)"
  by (simp_all add: patternStep_def adjust_def)

text \<open>C6 (corrected). The claim: every session containing a click event with no pointer-move
  event anywhere earlier in the log gets the click-without-movement flag and its fixed
  penalty of 20 on the final score, however many other events it holds.
  Amended: for every session that holds at least three events, among them a click at a
  position after the first with no pointer-move event anywhere earlier in the log, the
  request pattern check sets its flag with the click-without-movement reason, and the
  evaluation subtracts 20 from the score before the base of 50 is added and the sum is
  clamped to the range from 0 to 100, and appends the reason.\<close>

theorem click_without_move_flagged:
  assumes "3 \<le> length (s_events s)"
    and "i < length (s_events s)" "0 < i"
    and "ev_type (s_events s ! i) = ''click''"
    and "\<not> list_ex isMouseMove (take i (s_events s))"
  shows "rp_suspicious (analyzeRequestPattern s)
         \<and> rp_reason (analyzeRequestPattern s) = ''click without any mouse movement''
         \<and> vr_score (verifySession now s req) = finalScore (t_score (signals now s req) - 20)
         \<and> vr_reasons (verifySession now s req)
             = t_reasons (signals now s req)
               @ [''abnormal request pattern: click without any mouse movement'']"
proof -
  have "hasClickWithoutMove (s_events s)"
    unfolding hasClickWithoutMove_def list_ex_iff
    using assms(2-5) by (intro bexI [of _ i]) (simp_all add: list_ex_iff)
  then have flagged: "rp_suspicious (analyzeRequestPattern s)
      \<and> rp_reason (analyzeRequestPattern s) = ''click without any mouse movement''"
    using assms(1) by (simp add: analyzeRequestPattern_def Let_def)
  then show ?thesis
    by (simp add: verifySession_def Let_def patternStep_effect)
qed

theorem click_without_move_flagged_witness:
  "rp_suspicious (analyzeRequestPattern (sessionWith
      [bareEvent ''keypress'' 1100, bareEvent ''click'' 1200, bareEvent ''keypress'' 1300]))
   \<and> vr_score (verifySession 6000 (sessionWith
        [bareEvent ''keypress'' 1100, bareEvent ''click'' 1200, bareEvent ''keypress'' 1300])
        browserRequest)
     = finalScore (t_score (signals 6000 (sessionWith
        [bareEvent ''keypress'' 1100, bareEvent ''click'' 1200, bareEvent ''keypress'' 1300])
        browserRequest) - 20)"
  using click_without_move_flagged
    [of "sessionWith
      [bareEvent ''keypress'' 1100, bareEvent ''click'' 1200, bareEvent ''keypress'' 1300]"
      1 6000 browserRequest]
  by (simp add: sessionWith_fields bareEvent_def isMouseMove_def)

theorem early_click_not_flagged_counterexample:
  "ev_type (hd [bareEvent ''click'' 1100, bareEvent ''keypress'' 1200,
               bareEvent ''keypress'' 1300]) = ''click''
   \<and> \<not> rp_suspicious (analyzeRequestPattern (sessionWith
        [bareEvent ''click'' 1100, bareEvent ''keypress'' 1200, bareEvent ''keypress'' 1300]))
   \<and> ev_type ([bareEvent ''keypress'' 1100, bareEvent ''click'' 1200] ! 1) = ''click''
   \<and> \<not> list_ex isMouseMove (take 1 [bareEvent ''keypress'' 1100, bareEvent ''click'' 1200])
   \<and> \<not> rp_suspicious (analyzeRequestPattern (sessionWith
        [bareEvent ''keypress'' 1100, bareEvent ''click'' 1200]))
   \<and> vr_score (verifySession 6000 (sessionWith
        [bareEvent ''keypress'' 1100, bareEvent ''click'' 1200]) browserRequest)
     = finalScore (t_score (signals 6000 (sessionWith
        [bareEvent ''keypress'' 1100, bareEvent ''click'' 1200]) browserRequest))"
proof -
  have a: "\<not> rp_suspicious (analyzeRequestPattern (sessionWith
        [bareEvent ''click'' 1100, bareEvent ''keypress'' 1200, bareEvent ''keypress'' 1300]))"
    by (simp add: analyzeRequestPattern_def hasClickWithoutMove_def sessionWith_fields
        bareEvent_def isMouseMove_def Let_def upt_rec [of 0] upt_rec [of 1] upt_rec [of 2]
        upt_rec [of 3])
  have b: "\<not> rp_suspicious (analyzeRequestPattern (sessionWith
        [bareEvent ''keypress'' 1100, bareEvent ''click'' 1200]))"
    by (simp add: analyzeRequestPattern_def sessionWith_fields Let_def)
  from a b show ?thesis
    by (simp add: verifySession_def Let_def patternStep_effect bareEvent_def isMouseMove_def)
qed

subsection \<open>Score ranges\<close>

lemma scoreNonneg_steps:
  "0 \<le> automationScore r \<Longrightarrow> 0 \<le> n \<Longrightarrow> 0 \<le> automationScore (flagTool tool n rs r)"
  "0 \<le> automationScore r \<Longrightarrow> 0 \<le> score t \<Longrightarrow> 0 \<le> automationScore (stepTool tool t r)"
  "0 \<le> automationScore r \<Longrightarrow> 0 \<le> score t \<Longrightarrow> 0 \<le> automationScore (stepInconsistency t r)"
  "0 \<le> automationScore r \<Longrightarrow> 0 \<le> n \<Longrightarrow> 0 \<le> automationScore (stepFlag c n reason r)"
  "0 \<le> automationScore r \<Longrightarrow> 0 \<le> automationScore (stepThreshold r)"
  "0 \<le> automationScore initialResult"
  by (simp_all add: flagTool_def addScore_def stepTool_def stepInconsistency_def
      stepFlag_def stepThreshold_def initialResult_def)

lemma automationScore_in_range:
  "0 \<le> automationScore (detectAutomation X ci) \<and> automationScore (detectAutomation X ci) \<le> 100"
proof -
  have "0 \<le> automationScore (stepThreshold
       (stepFlag (\<not> checkUserAgentConsistency ua hs) 20 ''user agent inconsistent''
       (stepFlag (detectAbnormalLanguage nav hs) 5 ''abnormal language settings''
       (stepFlag (detectAbnormalHardwareConcurrency nav) 10 ''abnormal hardware concurrency''
       (stepFlag (detectAbnormalPluginCount nav) 15 ''abnormal browser plugin count''
       (stepFlag (detectAbnormalTimezone ci) 10 ''abnormal timezone''
       (stepFlag (detectAbnormalScreenSize X ci) 10 ''abnormal screen size''
       (stepInconsistency (detectBrowserInconsistency X ua hs nav)
       (stepTool ''Playwright'' (detectPlaywright ua nav win)
       (stepTool ''Puppeteer'' (detectPuppeteer ua nav win)
       (stepTool ''Selenium'' (detectSelenium ua nav win)
       (if detectWebDriver nav
        then flagTool ''WebDriver'' 30 [''WebDriver API detected''] initialResult
        else initialResult))))))))))))" for ua hs nav win
    by (intro scoreNonneg_steps score_nonneg) (simp_all add: scoreNonneg_steps)
  then show ?thesis
    by (simp add: detectAutomation_def runDetectors_def capScore_def)
qed

lemma fingerprintScore_in_range:
  "0 \<le> fp_score (analyzeFingerprint X ci) \<and> fp_score (analyzeFingerprint X ci) \<le> 100"
  by (simp add: analyzeFingerprint_def analyzeComponents_def finishFingerprint_def clamp100_def
      split: option.splits)

lemma networkScore_in_range:
  "0 \<le> nw_score (analyzeNetwork X ci req) \<and> nw_score (analyzeNetwork X ci req) \<le> 100"
  by (simp add: analyzeNetwork_def analyzePublic_def finishNetwork_def clamp100_def
      penalize_def reward_def networkStart_def)

lemma credit_score:
  "bh_score (credit natural n reason r) = bh_score r + (if natural then n else 0)"
  by (simp add: credit_def)

lemma credit_range:
  "0 \<le> bh_score r \<and> bh_score r \<le> k \<Longrightarrow> 0 \<le> n
     \<Longrightarrow> 0 \<le> bh_score (credit natural n reason r) \<and> bh_score (credit natural n reason r) \<le> k + n"
  by (simp add: credit_def)

lemma behaviorScore_in_range:
  assumes "analyzeBehavior X now events = Inr r"
  shows "0 \<le> bh_score r \<and> bh_score r \<le> 100"
proof (cases "events = [] \<or> length (filter isMouseMove events) < 5")
  case True
  then consider "events = []" | "events \<noteq> []" "length (filter isMouseMove events) < 5"
    by blast
  then show ?thesis
  proof cases
    case 1
    with assms show ?thesis by (auto simp: analyzeBehavior_def)
  next
    case 2
    with assms show ?thesis by (auto simp: analyzeBehavior_few_moves)
  qed
next
  case False
  let ?r1 = "credit (tj_isNatural (analyzeMouseTrajectory X now (filter isMouseMove events))) 30
               ''mouse trajectory is not natural''
               \<lparr> bh_isHuman = False, bh_score = 0, bh_reasons = [] \<rparr>"
  from False assms obtain c where
    c: "analyzeClickPattern now (filter (\<lambda>e. ev_type e = ''click'') events) events = Inr c"
    by (cases "analyzeClickPattern now (filter (\<lambda>e. ev_type e = ''click'') events) events")
       (simp_all add: analyzeBehavior_def Let_def)
  let ?r3 = "credit (ti_isNatural (analyzeEventTimeIntervals now events)) 25
               ''event time intervals are not natural''
               (credit (ck_isNatural c) 25 ''click pattern is not natural'' ?r1)"
  let ?r4 = "if length (filter (\<lambda>e. ev_type e = ''keypress'') events) > 0
             then credit (kp_isNatural (analyzeKeyPressPattern now
                    (filter (\<lambda>e. ev_type e = ''keypress'') events)))
                    20 ''keyboard input pattern is not natural'' ?r3
             else ?r3"
  have r: "bh_score r = bh_score ?r4"
    using False assms c by (auto simp: analyzeBehavior_def Let_def)
  have "0 \<le> bh_score ?r1 \<and> bh_score ?r1 \<le> 0 + 30"
    by (rule credit_range) simp_all
  then have "0 \<le> bh_score ?r3 \<and> bh_score ?r3 \<le> 0 + 30 + 25 + 25"
    by (intro credit_range) simp_all
  moreover from this have "0 \<le> bh_score (credit n 20 reason ?r3)
      \<and> bh_score (credit n 20 reason ?r3) \<le> 0 + 30 + 25 + 25 + 20" for n reason
    by (intro credit_range) simp_all
  ultimately have "0 \<le> bh_score ?r4 \<and> bh_score ?r4 \<le> 100"
    by (simp del: One_nat_def)
  with r show ?thesis by simp
qed

text \<open>C7 (code defect). The claim: for every input, sparse event lists included, each of the
  four analyzers returns a score between 0 and 100. The automation, fingerprint and
  network analyzers do (the three lemmas above), and so does the behavior analyzer
  whenever it returns. It does not return on the event list below: five pointer moves and
  two clicks that carry no payload. \<open>analyzeClickPattern\<close> reads \<open>data.timestamp\<close> of a
  click without the guard its sibling checks have, and the analysis throws.\<close>

theorem behavior_analysis_throws_on_bare_clicks:
  "analyzeBehavior X now clicksWithoutPayload = Inl TypeError"
  by (simp add: analyzeBehavior_def clicksWithoutPayload_def mouseEvent_def bareEvent_def
      isMouseMove_def analyzeClickPattern_def eventTimeStrict_def Let_def)

subsection \<open>The fingerprint hash\<close>

lemma fp_fingerprint_parts:
  "fp_fingerprint (applyPart p reason r) = fp_fingerprint r"
  "fp_fingerprint (missingPart a withReason n r) = fp_fingerprint r"
  by (simp_all add: applyPart_def missingPart_def)

lemma fp_fingerprint_steps:
  "fp_fingerprint (canvasStep c r) = fp_fingerprint r"
  "fp_fingerprint (webglStep c r) = fp_fingerprint r"
  "fp_fingerprint (audioStep c r) = fp_fingerprint r"
  "fp_fingerprint (fontsStep c r) = fp_fingerprint r"
  "fp_fingerprint (pluginsStep c r) = fp_fingerprint r"
  "fp_fingerprint (screenStep X c r) = fp_fingerprint r"
  "fp_fingerprint (hardwareStep c r) = fp_fingerprint r"
  "fp_fingerprint (timezoneStep c r) = fp_fingerprint r"
  "fp_fingerprint (touchStep c r) = fp_fingerprint r"
  "fp_fingerprint (finishFingerprint r) = fp_fingerprint r"
  by (simp_all add: finishFingerprint_def touchStep_def timezoneStep_def
      hardwareStep_def screenStep_def pluginsStep_def fontsStep_def audioStep_def webglStep_def
      canvasStep_def fp_fingerprint_parts split: option.splits)

lemma fp_fingerprint_components:
  "fp_fingerprint (analyzeComponents X c) = Some (generateFingerprintHash X c)"
  by (simp add: analyzeComponents_def fp_fingerprint_steps)

text \<open>C8 (corrected). The claim: the fingerprint hash is a deterministic function of the
  snapshot's component set; identical snapshots yield the same hash, and changing any one
  component of a snapshot changes the hash. Amended: the fingerprint hash is the SHA-256
  digest of the JSON text of the extracted component record, hence a function of that
  record alone: client informations with the same extracted components, identical
  snapshots among them, always yield the same hash.\<close>

theorem hash_determined_by_components:
  "fp_fingerprint (analyzeFingerprint X (Some ci))
     = Some (sha256_hex X (json_stringify X (componentsJson (extractFingerprintComponents ci))))
   \<and> (extractFingerprintComponents a = extractFingerprintComponents b \<longrightarrow>
        fp_fingerprint (analyzeFingerprint X (Some a))
          = fp_fingerprint (analyzeFingerprint X (Some b)))"
  by (simp add: analyzeFingerprint_def fp_fingerprint_components generateFingerprintHash_def)

theorem hash_determined_by_components_witness:
  "bareClientInfo\<lparr> ci_fingerprint := Some ''5d41402abc4b2a76'' \<rparr> \<noteq> bareClientInfo
   \<and> fp_fingerprint (analyzeFingerprint stubExternals
        (Some (bareClientInfo\<lparr> ci_fingerprint := Some ''5d41402abc4b2a76'' \<rparr>)))
     = fp_fingerprint (analyzeFingerprint stubExternals (Some bareClientInfo))"
proof -
  have "extractFingerprintComponents (bareClientInfo\<lparr> ci_fingerprint := Some ''5d41402abc4b2a76'' \<rparr>)
          = extractFingerprintComponents bareClientInfo"
    by (simp add: extractFingerprintComponents_def)
  moreover have "bareClientInfo\<lparr> ci_fingerprint := Some ''5d41402abc4b2a76'' \<rparr> \<noteq> bareClientInfo"
  proof
    assume "bareClientInfo\<lparr> ci_fingerprint := Some ''5d41402abc4b2a76'' \<rparr> = bareClientInfo"
    from arg_cong [OF this, of ci_fingerprint] show False
      by (simp add: bareClientInfo_def)
  qed
  ultimately show ?thesis
    using hash_determined_by_components
      [of stubExternals bareClientInfo
          "bareClientInfo\<lparr> ci_fingerprint := Some ''5d41402abc4b2a76'' \<rparr>" bareClientInfo]
    by simp
qed

theorem changed_component_same_hash_counterexample:
  "fullSnapshot\<lparr> sn_timezoneOffset := Some 0 \<rparr> \<noteq> fullSnapshot\<lparr> sn_timezoneOffset := None \<rparr>
   \<and> fp_fingerprint (analyzeFingerprint stubExternals (Some (collectClientInfo stubExternals
        browserRequest (fullSnapshot\<lparr> sn_timezoneOffset := Some 0 \<rparr>))))
     = fp_fingerprint (analyzeFingerprint stubExternals (Some (collectClientInfo stubExternals
        browserRequest (fullSnapshot\<lparr> sn_timezoneOffset := None \<rparr>))))
   \<and> fullSnapshot\<lparr> sn_fingerprint := Some ''0000000000000000'' \<rparr> \<noteq> fullSnapshot
   \<and> fp_fingerprint (analyzeFingerprint stubExternals (Some (collectClientInfo stubExternals
        browserRequest (fullSnapshot\<lparr> sn_fingerprint := Some ''0000000000000000'' \<rparr>))))
     = fp_fingerprint (analyzeFingerprint stubExternals (Some (collectClientInfo stubExternals
        browserRequest fullSnapshot)))"
proof -
  have "collectClientInfo stubExternals browserRequest (fullSnapshot\<lparr> sn_timezoneOffset := Some 0 \<rparr>)
      = collectClientInfo stubExternals browserRequest (fullSnapshot\<lparr> sn_timezoneOffset := None \<rparr>)"
    by (simp add: collectClientInfo_def orNullN_def)
  moreover have "extractFingerprintComponents (collectClientInfo stubExternals browserRequest
        (fullSnapshot\<lparr> sn_fingerprint := Some ''0000000000000000'' \<rparr>))
      = extractFingerprintComponents (collectClientInfo stubExternals browserRequest fullSnapshot)"
    by (simp add: collectClientInfo_def extractFingerprintComponents_def)
  moreover have "fullSnapshot\<lparr> sn_timezoneOffset := Some 0 \<rparr>
      \<noteq> fullSnapshot\<lparr> sn_timezoneOffset := None \<rparr>"
  proof
    assume "fullSnapshot\<lparr> sn_timezoneOffset := Some 0 \<rparr>
      = fullSnapshot\<lparr> sn_timezoneOffset := None \<rparr>"
    from arg_cong [OF this, of sn_timezoneOffset] show False by simp
  qed
  moreover have "fullSnapshot\<lparr> sn_fingerprint := Some ''0000000000000000'' \<rparr> \<noteq> fullSnapshot"
  proof
    assume "fullSnapshot\<lparr> sn_fingerprint := Some ''0000000000000000'' \<rparr> = fullSnapshot"
    from arg_cong [OF this, of sn_fingerprint] show False
      by (simp add: fullSnapshot_def)
  qed
  ultimately show ?thesis
    by (simp add: analyzeFingerprint_def fp_fingerprint_components generateFingerprintHash_def)
qed

subsection \<open>What does hold of the status\<close>

text \<open>A rejected session is final: every operation other than the creation of a session
  under the same identifier leaves it as it is, or (the sweep) deletes it.\<close>

lemma rejected_is_final:
  assumes "sessions sid = Some s" "s_status s = Rejected"
    and "\<And>now req body. op \<noteq> CreateSession sid now req body"
  shows "apply_op X op sessions sid = Some s \<or> apply_op X op sessions sid = None"
proof (cases op)
  case (CreateSession sid' now req body)
  with assms(3) have "sid' \<noteq> sid" by auto
  with assms(1) CreateSession show ?thesis by (simp add: init_def Let_def)
next
  case (RecordEvent sid' now ty d)
  show ?thesis
  proof (cases "sid' = sid")
    case True
    with assms RecordEvent show ?thesis by (simp add: recordEvent_rejected)
  next
    case False
    have "snd (recordEvent X sid' now ty d sessions) sid = sessions sid"
      using False
      by (cases "sessions sid'")
         (auto simp: recordEvent_def Let_def split: sum.splits)
    with assms(1) RecordEvent show ?thesis by simp
  qed
next
  case (Evaluate sid' now req)
  show ?thesis
  proof (cases "sid' = sid")
    case True
    with assms Evaluate show ?thesis by (simp add: verify_cached)
  next
    case False
    have "snd (verify X sid' now req sessions) sid = sessions sid"
      using False
      by (cases "sessions sid'")
         (auto simp: verify_def Let_def split: sum.splits)
    with assms(1) Evaluate show ?thesis by simp
  qed
next
  case (GetStatus sid')
  with assms(1) show ?thesis by simp
next
  case (Sweep now)
  with assms(1) show ?thesis by (simp add: cleanupSessions_def)
qed

end
